theory Spec2Isabelle
  imports Complex_Main
begin

section \<open>Data model of the Minion Manager\<close>

text \<open>
  The embedding follows \<^verbatim>\<open>coriolis/minion_manager/rpc/server.py\<close>. The status constants
  of \<^verbatim>\<open>coriolis.constants\<close> become constructors that keep the constants' names; the
  exception classes of \<^verbatim>\<open>coriolis.exception\<close> become the constructors of \<open>error\<close>.
  \<open>AttributeError\<close> and \<open>OverflowError\<close> are the Python built-ins, \<open>DBError\<close> stands
  for any exception that a call into the database layer lets escape.
\<close>

datatype minion_pool_status =
    MINION_POOL_STATUS_DEALLOCATED
  | MINION_POOL_STATUS_VALIDATING_INPUTS
  | MINION_POOL_STATUS_ALLOCATING_SHARED_RESOURCES
  | MINION_POOL_STATUS_ALLOCATING_MACHINES
  | MINION_POOL_STATUS_ALLOCATED
  | MINION_POOL_STATUS_POOL_MAINTENANCE
  | MINION_POOL_STATUS_DEALLOCATING_MACHINES
  | MINION_POOL_STATUS_DEALLOCATING_SHARED_RESOURCES
  | MINION_POOL_STATUS_ERROR

datatype minion_machine_status =
    MINION_MACHINE_STATUS_UNINITIALIZED
  | MINION_MACHINE_STATUS_AVAILABLE
  | MINION_MACHINE_STATUS_IN_USE
  | MINION_MACHINE_STATUS_HEALTHCHECKING
  | MINION_MACHINE_STATUS_DEALLOCATING
  | MINION_MACHINE_STATUS_ERROR_DEPLOYING
  | MINION_MACHINE_STATUS_ERROR

datatype error =
    InvalidInput
  | NotFound
  | InvalidMinionPoolState
  | InvalidMinionPoolSelection
  | AttributeError
  | OverflowError
  | DBError

text \<open>
  \<^verbatim>\<open>models.MinionMachine\<close>: the columns the server reads and writes. A timestamp is the
  number of microseconds since \<^verbatim>\<open>datetime.min\<close>; a null column is \<open>None\<close>.
\<close>

record minion_machine =
  machine_id :: string
  machine_pool_id :: string
  machine_status :: minion_machine_status
  allocated_action :: "string option"
  last_used_at :: "int option"

text \<open>
  \<^verbatim>\<open>models.MinionPool\<close>. \<open>minion_machines\<close> is the relationship that the database layer
  fills when a pool is loaded with \<^verbatim>\<open>include_machines=True\<close>; the rows kept in the store
  leave it empty.
\<close>

record minion_pool =
  pool_id :: string
  pool_endpoint_id :: string
  pool_platform :: string
  pool_os_type :: string
  pool_status :: minion_pool_status
  minimum_minions :: int
  maximum_minions :: int
  minion_max_idle_time :: int
  minion_machines :: "minion_machine list"

text \<open>Modelled from the spec: the string constants of \<^verbatim>\<open>coriolis.constants\<close> that the
  server compares pool columns with (the spec's scenarios write them \<^verbatim>\<open>"linux"\<close>,
  \<^verbatim>\<open>"source"\<close> and \<^verbatim>\<open>"destination"\<close>).\<close>

definition OS_TYPE_LINUX :: string where
  "OS_TYPE_LINUX = ''linux''"

definition PROVIDER_PLATFORM_SOURCE :: string where
  "PROVIDER_PLATFORM_SOURCE = ''source''"

definition PROVIDER_PLATFORM_DESTINATION :: string where
  "PROVIDER_PLATFORM_DESTINATION = ''destination''"

section \<open>Refresh schedule\<close>

text \<open>
  A cron job as \<^verbatim>\<open>_register_refresh_jobs_for_minion_pool\<close> builds it. The name and the
  description are format strings applied to the pool id and the minute; the model keeps the
  two arguments. \<open>job_schedule_minute\<close> is the \<^verbatim>\<open>{"minute": minute}\<close> schedule,
  \<open>job_pool_id\<close> the pool id bound to \<^verbatim>\<open>_trigger_pool_refresh\<close>.
\<close>

datatype cron_job_name = MINION_POOL_REFRESH_CRON_JOB_NAME_FORMAT string int

datatype cron_job_description = MINION_POOL_REFRESH_CRON_JOB_DESCRIPTION_FORMAT string int

record cron_job =
  job_name :: cron_job_name
  job_description :: cron_job_description
  job_schedule_minute :: int
  job_enabled :: bool
  job_pool_id :: string

text \<open>Modelled from the spec: \<^verbatim>\<open>cron.Cron.register\<close>, absent from the sources. The cron
  engine "maintains a set of registered jobs"; registering adds the job.\<close>

definition cron_register :: "cron_job \<Rightarrow> cron_job list \<Rightarrow> cron_job list" where
  "cron_register job jobs = jobs @ [job]"

text \<open>
  The first lines of \<^verbatim>\<open>_register_refresh_jobs_for_minion_pool\<close>: the period that
  is used, from the configured \<^verbatim>\<open>minion_pool_default_refresh_period_minutes\<close> and the
  optional argument. \<^verbatim>\<open>not period_minutes\<close> holds for \<^verbatim>\<open>None\<close> and for 0.
\<close>

definition effective_period_minutes :: "int \<Rightarrow> int option \<Rightarrow> int" where
  "effective_period_minutes conf period_minutes =
    (let p0 = (case period_minutes of
                 None \<Rightarrow> conf
               | Some p \<Rightarrow> if p = 0 then conf else p);
         p1 = (if p0 \<le> 0 then 1 else p0);
         p2 = (if p1 > 60 then 10 else p1)
     in p2)"

text \<open>
  \<^verbatim>\<open>math.ceil(60 / period_minutes)\<close>. For an integer period between 1 and 60 the
  quotient is either an integer or at least 1/60 away from one, so the double-precision
  quotient has the ceiling of the exact one; the model computes that ceiling on integers.
\<close>

definition ceil_60_div :: "int \<Rightarrow> nat" where
  "ceil_60_div p = nat (- ((- 60) div p))"

definition refresh_minutes :: "int \<Rightarrow> int list" where
  "refresh_minutes p = map (\<lambda>i. p * int i) [0..<ceil_60_div p]"

definition refresh_job :: "string \<Rightarrow> int \<Rightarrow> cron_job" where
  "refresh_job pid minute =
    \<lparr> job_name = MINION_POOL_REFRESH_CRON_JOB_NAME_FORMAT pid minute,
      job_description = MINION_POOL_REFRESH_CRON_JOB_DESCRIPTION_FORMAT pid minute,
      job_schedule_minute = minute,
      job_enabled = True,
      job_pool_id = pid \<rparr>"

definition register_refresh_jobs_for_minion_pool ::
  "int \<Rightarrow> minion_pool \<Rightarrow> int option \<Rightarrow> cron_job list \<Rightarrow> cron_job list" where
  "register_refresh_jobs_for_minion_pool conf pool period_minutes jobs =
    fold (\<lambda>minute. cron_register (refresh_job (pool_id pool) minute))
      (refresh_minutes (effective_period_minutes conf period_minutes)) jobs"

text \<open>
  \<^verbatim>\<open>_init_cron\<close>, over the pools that \<^verbatim>\<open>db_api.get_minion_pools\<close> returned.
\<close>

fun init_cron :: "int \<Rightarrow> minion_pool list \<Rightarrow> cron_job list \<Rightarrow> cron_job list" where
  "init_cron conf [] jobs = jobs"
| "init_cron conf (pool # pools) jobs =
    (if pool_status pool \<notin> set [MINION_POOL_STATUS_ALLOCATED]
     then init_cron conf pools jobs
     else init_cron conf pools
            (register_refresh_jobs_for_minion_pool conf pool None jobs))"

section \<open>Task flows\<close>

text \<open>
  The flow and task objects of \<^verbatim>\<open>taskflow\<close> and \<^verbatim>\<open>minion_manager_tasks\<close> as data:
  a flow is a tree of named linear, unordered and graph flows over tasks. A flow name is a
  format constant applied to its arguments, or the name the caller passed. The
  \<^verbatim>\<open>inject\<close> and \<^verbatim>\<open>provides\<close> arguments of the tasks carry no identifier and are left
  out; an optional argument that the caller does not pass is \<open>None\<close>.
\<close>

datatype flow_name =
    FlowName string
  | MINION_POOL_ALLOCATION_FLOW_NAME_FORMAT string
  | MINION_POOL_ALLOCATE_MINIONS_SUBFLOW_NAME_FORMAT string
  | MINION_POOL_DEALLOCATION_FLOW_NAME_FORMAT string
  | MINION_POOL_DEALLOCATE_MACHINES_SUBFLOW_NAME_FORMAT string
  | MINION_POOL_REFRESH_FLOW_NAME_FORMAT string
  | MINION_POOL_HEALTHCHECK_MACHINE_SUBFLOW_NAME_FORMAT string string
  | MINION_POOL_REALLOCATE_MACHINE_SUBFLOW_NAME_FORMAT string string

datatype task =
    UpdateMinionPoolStatusTask string minion_pool_status "minion_pool_status option"
  | ValidateMinionPoolOptionsTask string string string
  | AllocateSharedPoolResourcesTask string string string
  | DeallocateSharedPoolResourcesTask string string string
  | AllocateMinionMachineTask string string string "string option" "bool option"
  | DeallocateMinionMachineTask string string string
  | HealthcheckMinionMachineTask string string string minion_machine_status bool

datatype decider = MinionMachineHealtchcheckDecider string string bool

datatype decider_depth = Depth_FLOW

datatype graph_link = Link nat nat decider_depth decider

datatype flow =
    Task task
  | LinearFlow flow_name "flow list"
  | UnorderedFlow flow_name "flow list"
  | GraphFlow flow_name "flow list" "graph_link list"

text \<open>The tasks of a flow, in the order they were added.\<close>

fun flow_tasks :: "flow \<Rightarrow> task list" where
  "flow_tasks (Task t) = [t]"
| "flow_tasks (LinearFlow n fs) = concat (map flow_tasks fs)"
| "flow_tasks (UnorderedFlow n fs) = concat (map flow_tasks fs)"
| "flow_tasks (GraphFlow n fs ls) = concat (map flow_tasks fs)"

fun is_allocate_machine_task :: "task \<Rightarrow> bool" where
  "is_allocate_machine_task (AllocateMinionMachineTask p m pl a r) = True"
| "is_allocate_machine_task t = False"

text \<open>
  \<^verbatim>\<open>_get_healtchcheck_flow_for_minion_machine\<close>: a graph flow of the healthcheck task
  and the linear reallocation sub-flow, linked by the decider. The link names its two
  nodes by their positions in the graph flow.
\<close>

definition get_healtchcheck_flow_for_minion_machine ::
  "minion_pool \<Rightarrow> string \<Rightarrow> string option \<Rightarrow> minion_machine_status \<Rightarrow> flow" where
  "get_healtchcheck_flow_for_minion_machine pool minion_machine_id allocate_to_action
       machine_status_on_success =
    GraphFlow
      (MINION_POOL_HEALTHCHECK_MACHINE_SUBFLOW_NAME_FORMAT (pool_id pool) minion_machine_id)
      [Task (HealthcheckMinionMachineTask (pool_id pool) minion_machine_id
               (pool_platform pool) machine_status_on_success False),
       LinearFlow
         (MINION_POOL_REALLOCATE_MACHINE_SUBFLOW_NAME_FORMAT (pool_id pool) minion_machine_id)
         [Task (DeallocateMinionMachineTask (pool_id pool) minion_machine_id
                  (pool_platform pool)),
          Task (AllocateMinionMachineTask (pool_id pool) minion_machine_id
                  (pool_platform pool) allocate_to_action None)]]
      [Link 0 1 Depth_FLOW
         (MinionMachineHealtchcheckDecider (pool_id pool) minion_machine_id False)]"

text \<open>
  \<^verbatim>\<open>_get_minion_pool_allocation_flow\<close>. \<open>uuid4 k\<close> is the k-th identifier that
  \<^verbatim>\<open>uuid.uuid4()\<close> returns during the call; \<^verbatim>\<open>range(n)\<close> is empty for a negative n.
  The machines flow is added, after the status transition, only when it has a child.
\<close>

definition get_minion_pool_allocation_flow :: "(nat \<Rightarrow> string) \<Rightarrow> minion_pool \<Rightarrow> flow" where
  "get_minion_pool_allocation_flow uuid4 pool =
    (let pool_machine_ids = map uuid4 [0..<nat (minimum_minions pool)];
         machines_flow_children =
           map (\<lambda>machine_id. Task (AllocateMinionMachineTask (pool_id pool) machine_id
                                     (pool_platform pool) None None))
             pool_machine_ids
     in LinearFlow (MINION_POOL_ALLOCATION_FLOW_NAME_FORMAT (pool_id pool))
          ([Task (UpdateMinionPoolStatusTask (pool_id pool)
                    MINION_POOL_STATUS_VALIDATING_INPUTS (Some MINION_POOL_STATUS_ERROR)),
            Task (ValidateMinionPoolOptionsTask (pool_id pool) (pool_id pool)
                    (pool_platform pool)),
            Task (UpdateMinionPoolStatusTask (pool_id pool)
                    MINION_POOL_STATUS_ALLOCATING_SHARED_RESOURCES None),
            Task (AllocateSharedPoolResourcesTask (pool_id pool) (pool_id pool)
                    (pool_platform pool))]
           @ (if machines_flow_children \<noteq> []
              then [Task (UpdateMinionPoolStatusTask (pool_id pool)
                            MINION_POOL_STATUS_ALLOCATING_MACHINES None),
                    UnorderedFlow
                      (MINION_POOL_ALLOCATE_MINIONS_SUBFLOW_NAME_FORMAT (pool_id pool))
                      machines_flow_children]
              else [])
           @ [Task (UpdateMinionPoolStatusTask (pool_id pool)
                      MINION_POOL_STATUS_ALLOCATED None)]))"

text \<open>\<^verbatim>\<open>_get_minion_pool_deallocation_flow\<close>.\<close>

definition get_minion_pool_deallocation_flow :: "minion_pool \<Rightarrow> flow" where
  "get_minion_pool_deallocation_flow pool =
    (let machines_flow_children =
           map (\<lambda>machine. Task (DeallocateMinionMachineTask (pool_id pool)
                                  (machine_id machine) (pool_platform pool)))
             (minion_machines pool)
     in LinearFlow (MINION_POOL_DEALLOCATION_FLOW_NAME_FORMAT (pool_id pool))
          ((if machines_flow_children \<noteq> []
            then [Task (UpdateMinionPoolStatusTask (pool_id pool)
                          MINION_POOL_STATUS_DEALLOCATING_MACHINES
                          (Some MINION_POOL_STATUS_ERROR)),
                  UnorderedFlow
                    (MINION_POOL_DEALLOCATE_MACHINES_SUBFLOW_NAME_FORMAT (pool_id pool))
                    machines_flow_children]
            else [])
           @ [Task (UpdateMinionPoolStatusTask (pool_id pool)
                      MINION_POOL_STATUS_DEALLOCATING_SHARED_RESOURCES
                      (Some MINION_POOL_STATUS_ERROR)),
              Task (DeallocateSharedPoolResourcesTask (pool_id pool) (pool_id pool)
                      (pool_platform pool)),
              Task (UpdateMinionPoolStatusTask (pool_id pool)
                      MINION_POOL_STATUS_DEALLOCATED None)]))"

section \<open>The store\<close>

text \<open>
  The database behind \<^verbatim>\<open>db_api\<close>: the pool rows, the machine rows, and which calls
  into the database layer raise. \<open>db_faults\<close> maps a mutating call to the exception it
  raises, if it raises one; a call that raises changes nothing.
\<close>

datatype db_call =
    DB_set_minion_machines_allocation_statuses
      "string list" "string option" minion_machine_status bool
  | DB_add_minion_machine string
  | DB_delete_minion_machine string
  | DB_update_minion_machine string
  | DB_set_minion_machine_status string minion_machine_status
  | DB_set_minion_pool_status string minion_pool_status

record store =
  db_pools :: "minion_pool list"
  db_machines :: "minion_machine list"
  db_faults :: "db_call \<Rightarrow> error option"

text \<open>Modelled from the spec: the functions of \<^verbatim>\<open>coriolis.db.api\<close>, absent from the
  sources, after the Store of the spec: filtered queries and transactional mutators.
  \<^verbatim>\<open>get_minion_pool\<close> returns \<^verbatim>\<open>None\<close> for an unknown id and loads the machines
  of the pool when asked to.\<close>

definition db_get_minion_pool :: "store \<Rightarrow> string \<Rightarrow> bool \<Rightarrow> minion_pool option" where
  "db_get_minion_pool db minion_pool_id include_machines =
    (case find (\<lambda>p. pool_id p = minion_pool_id) (db_pools db) of
       None \<Rightarrow> None
     | Some p \<Rightarrow>
         Some (p\<lparr>minion_machines :=
                   (if include_machines
                    then filter (\<lambda>m. machine_pool_id m = minion_pool_id) (db_machines db)
                    else [])\<rparr>))"

text \<open>Modelled from the spec: \<^verbatim>\<open>db_api.get_minion_machine\<close>, the row with the id or
  \<^verbatim>\<open>None\<close>.\<close>

definition db_get_minion_machine :: "store \<Rightarrow> string \<Rightarrow> minion_machine option" where
  "db_get_minion_machine db minion_machine_id =
    find (\<lambda>m. machine_id m = minion_machine_id) (db_machines db)"

text \<open>Modelled from the spec: \<^verbatim>\<open>db_api.get_minion_machines\<close> filtered by allocated
  action.\<close>

definition db_get_minion_machines :: "store \<Rightarrow> string \<Rightarrow> minion_machine list" where
  "db_get_minion_machines db allocated_action_id =
    filter (\<lambda>m. allocated_action m = Some allocated_action_id) (db_machines db)"

text \<open>Modelled from the spec: \<^verbatim>\<open>db_api.add_minion_machine\<close> inserts the row.\<close>

definition db_add_minion_machine :: "minion_machine \<Rightarrow> store \<Rightarrow> error + store" where
  "db_add_minion_machine machine db =
    (case db_faults db (DB_add_minion_machine (machine_id machine)) of
       Some e \<Rightarrow> Inl e
     | None \<Rightarrow> Inr (db\<lparr>db_machines := db_machines db @ [machine]\<rparr>))"

text \<open>Modelled from the spec: \<^verbatim>\<open>db_api.delete_minion_machine\<close> removes the row with
  the id.\<close>

definition db_delete_minion_machine :: "string \<Rightarrow> store \<Rightarrow> error + store" where
  "db_delete_minion_machine minion_machine_id db =
    (case db_faults db (DB_delete_minion_machine minion_machine_id) of
       Some e \<Rightarrow> Inl e
     | None \<Rightarrow>
         Inr (db\<lparr>db_machines :=
                   filter (\<lambda>m. machine_id m \<noteq> minion_machine_id) (db_machines db)\<rparr>))"

text \<open>Modelled from the spec: \<^verbatim>\<open>db_api.update_minion_machine\<close>; the dictionary of
  updated values is the function that writes them into a row.\<close>

definition db_update_minion_machine ::
  "string \<Rightarrow> (minion_machine \<Rightarrow> minion_machine) \<Rightarrow> store \<Rightarrow> error + store" where
  "db_update_minion_machine minion_machine_id updated_values db =
    (case db_faults db (DB_update_minion_machine minion_machine_id) of
       Some e \<Rightarrow> Inl e
     | None \<Rightarrow>
         Inr (db\<lparr>db_machines :=
                   map (\<lambda>m. if machine_id m = minion_machine_id then updated_values m else m)
                     (db_machines db)\<rparr>))"

text \<open>Modelled from the spec: \<^verbatim>\<open>db_api.set_minion_machine_status\<close>.\<close>

definition db_set_minion_machine_status ::
  "string \<Rightarrow> minion_machine_status \<Rightarrow> store \<Rightarrow> error + store" where
  "db_set_minion_machine_status minion_machine_id status db =
    (case db_faults db (DB_set_minion_machine_status minion_machine_id status) of
       Some e \<Rightarrow> Inl e
     | None \<Rightarrow>
         Inr (db\<lparr>db_machines :=
                   map (\<lambda>m. if machine_id m = minion_machine_id
                             then m\<lparr>machine_status := status\<rparr> else m)
                     (db_machines db)\<rparr>))"

text \<open>Modelled from the spec: \<^verbatim>\<open>db_api.set_minion_machines_allocation_statuses\<close>,
  "a single transactional batch: either every listed machine transitions, or none does.
  When \<^verbatim>\<open>refresh_allocation_time\<close> is true, \<^verbatim>\<open>last_used_at\<close> is set to now for each
  affected machine." A listed machine that does not exist cannot transition, so the batch
  fails with \<open>NotFound\<close>. \<open>now\<close> is the clock reading.\<close>

definition db_set_minion_machines_allocation_statuses ::
  "int \<Rightarrow> string list \<Rightarrow> string option \<Rightarrow> minion_machine_status \<Rightarrow> bool \<Rightarrow> store
     \<Rightarrow> error + store" where
  "db_set_minion_machines_allocation_statuses now minion_machine_ids action_id
       allocation_status refresh_allocation_time db =
    (case db_faults db (DB_set_minion_machines_allocation_statuses minion_machine_ids
                          action_id allocation_status refresh_allocation_time) of
       Some e \<Rightarrow> Inl e
     | None \<Rightarrow>
         if filter (\<lambda>mid. mid \<notin> set (map machine_id (db_machines db)))
              minion_machine_ids \<noteq> []
         then Inl NotFound
         else Inr (db\<lparr>db_machines :=
                        map (\<lambda>m. if machine_id m \<in> set minion_machine_ids
                                  then m\<lparr>allocated_action := action_id,
                                         last_used_at :=
                                           (if refresh_allocation_time then Some now
                                            else last_used_at m),
                                         machine_status := allocation_status\<rparr>
                                  else m)
                          (db_machines db)\<rparr>))"

text \<open>Modelled from the spec: \<^verbatim>\<open>db_api.set_minion_pool_status\<close>.\<close>

definition db_set_minion_pool_status ::
  "string \<Rightarrow> minion_pool_status \<Rightarrow> store \<Rightarrow> error + store" where
  "db_set_minion_pool_status minion_pool_id status db =
    (case db_faults db (DB_set_minion_pool_status minion_pool_id status) of
       Some e \<Rightarrow> Inl e
     | None \<Rightarrow>
         Inr (db\<lparr>db_pools :=
                   map (\<lambda>p. if pool_id p = minion_pool_id
                             then p\<lparr>pool_status := status\<rparr> else p)
                     (db_pools db)\<rparr>))"

text \<open>\<^verbatim>\<open>_get_minion_pool\<close>: \<open>NotFound\<close> when the database has no such pool.\<close>

definition get_minion_pool :: "store \<Rightarrow> string \<Rightarrow> bool \<Rightarrow> error + minion_pool" where
  "get_minion_pool db minion_pool_id include_machines =
    (case db_get_minion_pool db minion_pool_id include_machines of
       None \<Rightarrow> Inl NotFound
     | Some minion_pool \<Rightarrow> Inr minion_pool)"

section \<open>Starting the endpoint\<close>

text \<open>
  \<^verbatim>\<open>MinionManagerServerEndpoint.__init__\<close>: it creates the cron engine and the admin context;
  the call \<^verbatim>\<open>self._init_cron()\<close> is commented out. The configuration and the store are
  arguments of the model although the constructor reads neither.
\<close>

record endpoint =
  endpoint_cron :: "cron_job list"

text \<open>Modelled from the spec: \<^verbatim>\<open>cron.Cron()\<close>, absent from the sources; a new engine has no
  registered job.\<close>

definition new_cron :: "cron_job list" where
  "new_cron = []"

definition endpoint_init :: "int \<Rightarrow> store \<Rightarrow> endpoint" where
  "endpoint_init conf db = \<lparr> endpoint_cron = new_cron \<rparr>"

section \<open>Reserving machines for an action\<close>

text \<open>
  A Python dictionary keeps its keys in insertion order; assigning to a key that is present
  replaces the value in place.
\<close>

fun dict_set :: "'k \<Rightarrow> 'v \<Rightarrow> ('k \<times> 'v) list \<Rightarrow> ('k \<times> 'v) list" where
  "dict_set k v [] = [(k, v)]"
| "dict_set k v (kv # d) = (if fst kv = k then (k, v) # d else kv # dict_set k v d)"

definition dict_keys :: "('k \<times> 'v) list \<Rightarrow> 'k list" where
  "dict_keys d = map fst d"

definition dict_values :: "('k \<times> 'v) list \<Rightarrow> 'v list" where
  "dict_values d = map snd d"

text \<open>
  \<^verbatim>\<open>_select_machine\<close>: the first machine of the pool that is not excluded and is
  \<^verbatim>\<open>AVAILABLE\<close>.
\<close>

fun select_machine :: "minion_machine list \<Rightarrow> string list \<Rightarrow> minion_machine option" where
  "select_machine [] exclude = None"
| "select_machine (machine # machines) exclude =
    (if exclude \<noteq> [] \<and> machine_id machine \<in> set exclude
     then select_machine machines exclude
     else if machine_status machine \<noteq> MINION_MACHINE_STATUS_AVAILABLE
     then select_machine machines exclude
     else Some machine)"

text \<open>
  The local variables of \<^verbatim>\<open>_make_minion_machine_allocation_subflow_for_action\<close> that
  the loop over the instances fills.
\<close>

record allocation_plan =
  instance_minion_allocations :: "(string \<times> string) list"
  machine_db_entries_to_add :: "minion_machine list"
  existing_machines_to_allocate :: "(string \<times> string) list"
  allocation_subflow :: "flow list"

definition empty_allocation_plan :: allocation_plan where
  "empty_allocation_plan =
    \<lparr> instance_minion_allocations = [],
      machine_db_entries_to_add = [],
      existing_machines_to_allocate = [],
      allocation_subflow = [] \<rparr>"

text \<open>
  The loop \<^verbatim>\<open>for instance in action_instances\<close>. Every new machine draws one uuid, so
  the next one is \<open>uuid4\<close> at the number of new machines planned so far. A new row has
  status \<^verbatim>\<open>UNINITIALIZED\<close> and \<^verbatim>\<open>allocated_action = action_id\<close>.
\<close>

fun plan_allocations ::
  "(nat \<Rightarrow> string) \<Rightarrow> minion_pool \<Rightarrow> string \<Rightarrow> string list \<Rightarrow> allocation_plan
     \<Rightarrow> error + allocation_plan" where
  "plan_allocations uuid4 pool action_id [] plan = Inr plan"
| "plan_allocations uuid4 pool action_id (instance # rest) plan =
    (if instance \<in> set (dict_keys (instance_minion_allocations plan))
     then Inl InvalidInput
     else case select_machine (minion_machines pool)
                 (dict_values (instance_minion_allocations plan)) of
       Some minion_machine \<Rightarrow>
         plan_allocations uuid4 pool action_id rest
           (plan\<lparr>instance_minion_allocations :=
                    dict_set instance (machine_id minion_machine)
                      (instance_minion_allocations plan),
                  existing_machines_to_allocate :=
                    dict_set (machine_id minion_machine) instance
                      (existing_machines_to_allocate plan),
                  allocation_subflow :=
                    allocation_subflow plan @
                      [get_healtchcheck_flow_for_minion_machine pool
                         (machine_id minion_machine) (Some action_id)
                         MINION_MACHINE_STATUS_IN_USE]\<rparr>)
     | None \<Rightarrow>
         (let new_machine_id = uuid4 (length (machine_db_entries_to_add plan));
              new_minion_machine =
                \<lparr> machine_id = new_machine_id,
                  machine_pool_id = pool_id pool,
                  machine_status = MINION_MACHINE_STATUS_UNINITIALIZED,
                  allocated_action = Some action_id,
                  last_used_at = None \<rparr>
          in plan_allocations uuid4 pool action_id rest
               (plan\<lparr>machine_db_entries_to_add :=
                        machine_db_entries_to_add plan @ [new_minion_machine],
                      instance_minion_allocations :=
                        dict_set instance new_machine_id
                          (instance_minion_allocations plan),
                      allocation_subflow :=
                        allocation_subflow plan @
                          [Task (AllocateMinionMachineTask (pool_id pool) new_machine_id
                                   (pool_platform pool) (Some action_id)
                                   (Some False))]\<rparr>)))"

text \<open>
  The loop \<^verbatim>\<open>for new_machine in machine_db_entries_to_add\<close> of the \<^verbatim>\<open>try\<close> block.
  It appends the \<^emph>\<open>id\<close> of each inserted row to \<^verbatim>\<open>new_machine_db_entries_added\<close>.
  The result is the exception that ended the loop, if any, the ids added, and the store.
\<close>

fun add_new_machines ::
  "minion_machine list \<Rightarrow> string list \<Rightarrow> store \<Rightarrow> error option \<times> string list \<times> store" where
  "add_new_machines [] new_machine_db_entries_added db =
    (None, new_machine_db_entries_added, db)"
| "add_new_machines (new_machine # rest) new_machine_db_entries_added db =
    (case db_add_minion_machine new_machine db of
       Inl e \<Rightarrow> (Some e, new_machine_db_entries_added, db)
     | Inr db' \<Rightarrow>
         add_new_machines rest
           (new_machine_db_entries_added @ [machine_id new_machine]) db')"

text \<open>
  Reading the attribute \<^verbatim>\<open>id\<close> of a Python \<^verbatim>\<open>str\<close> raises \<^verbatim>\<open>AttributeError\<close>.
  The handler does so on the elements of \<^verbatim>\<open>new_machine_db_entries_added\<close>, which are
  ids.
\<close>

definition str_attr_id :: "string \<Rightarrow> error + string" where
  "str_attr_id s = Inl AttributeError"

text \<open>
  The list comprehension \<^verbatim>\<open>[m.id for m in new_machine_db_entries_added]\<close> among the
  arguments of the handler's first \<^verbatim>\<open>LOG.warn\<close>.
\<close>

fun log_added_ids :: "string list \<Rightarrow> error + string list" where
  "log_added_ids [] = Inr []"
| "log_added_ids (m # ms) =
    (case str_attr_id m of
       Inl e \<Rightarrow> Inl e
     | Inr i \<Rightarrow> (case log_added_ids ms of Inl e \<Rightarrow> Inl e | Inr is \<Rightarrow> Inr (i # is)))"

text \<open>
  The handler's loop \<^verbatim>\<open>for new_machine in new_machine_db_entries_added\<close>: the
  deletion, with \<^verbatim>\<open>new_machine.id\<close> as its argument, runs inside a \<^verbatim>\<open>try\<close> whose
  own handler formats \<^verbatim>\<open>new_machine.id\<close> into the log line and then continues. The
  result is the exception that escaped the loop, if any, and the store.
\<close>

fun delete_added_machines :: "string list \<Rightarrow> store \<Rightarrow> error option \<times> store" where
  "delete_added_machines [] db = (None, db)"
| "delete_added_machines (new_machine # rest) db =
    (case (case str_attr_id new_machine of
             Inl e \<Rightarrow> Inl e
           | Inr mid \<Rightarrow> db_delete_minion_machine mid db) of
       Inr db' \<Rightarrow> delete_added_machines rest db'
     | Inl ex \<Rightarrow>
         (case str_attr_id new_machine of
            Inl e \<Rightarrow> (Some e, db)
          | Inr mid \<Rightarrow> delete_added_machines rest db))"

text \<open>
  The \<^verbatim>\<open>except Exception\<close> handler of the reservation: \<open>ex\<close> is the exception being
  handled, re-raised by the final \<^verbatim>\<open>raise\<close> unless the handler itself raises first.
  A failure of the revert to \<^verbatim>\<open>AVAILABLE\<close> is logged and swallowed.
\<close>

definition allocation_error_handler ::
  "int \<Rightarrow> error \<Rightarrow> (string \<times> string) list \<Rightarrow> string list \<Rightarrow> store \<Rightarrow> error \<times> store" where
  "allocation_error_handler now ex existing_machines
       new_machine_db_entries_added db =
    (case log_added_ids new_machine_db_entries_added of
       Inl e \<Rightarrow> (e, db)
     | Inr logged \<Rightarrow>
         (let db1 = (case db_set_minion_machines_allocation_statuses now
                            (dict_keys existing_machines) None
                            MINION_MACHINE_STATUS_AVAILABLE False db of
                       Inl e \<Rightarrow> db
                     | Inr db' \<Rightarrow> db')
          in case delete_added_machines new_machine_db_entries_added db1 of
               (Some e, db2) \<Rightarrow> (e, db2)
             | (None, db2) \<Rightarrow> (ex, db2)))"

text \<open>
  \<^verbatim>\<open>_make_minion_machine_allocation_subflow_for_action\<close>. The result pairs what the
  call returns or raises with the store it leaves behind.
\<close>

definition make_minion_machine_allocation_subflow_for_action ::
  "(nat \<Rightarrow> string) \<Rightarrow> int \<Rightarrow> store \<Rightarrow> minion_pool \<Rightarrow> string \<Rightarrow> string list \<Rightarrow> flow_name
     \<Rightarrow> (error + flow \<times> (string \<times> string) list) \<times> store" where
  "make_minion_machine_allocation_subflow_for_action uuid4 now db pool action_id
       action_instances subflow_name =
    (let currently_available_machines =
           filter (\<lambda>machine. machine_status machine = MINION_MACHINE_STATUS_AVAILABLE)
             (minion_machines pool);
         extra_available_machine_slots =
           maximum_minions pool - int (length (minion_machines pool));
         num_instances = int (length action_instances)
     in if num_instances >
             int (length currently_available_machines) + extra_available_machine_slots
        then (Inl InvalidMinionPoolState, db)
        else case plan_allocations uuid4 pool action_id action_instances
                    empty_allocation_plan of
          Inl e \<Rightarrow> (Inl e, db)
        | Inr plan \<Rightarrow>
            (case db_set_minion_machines_allocation_statuses now
                    (dict_keys (existing_machines_to_allocate plan)) (Some action_id)
                    MINION_MACHINE_STATUS_IN_USE True db of
               Inl ex \<Rightarrow>
                 (case allocation_error_handler now ex
                         (existing_machines_to_allocate plan) [] db of
                    (e, db') \<Rightarrow> (Inl e, db'))
             | Inr db1 \<Rightarrow>
                 (case add_new_machines (machine_db_entries_to_add plan) [] db1 of
                    (Some ex, new_machine_db_entries_added, db2) \<Rightarrow>
                      (case allocation_error_handler now ex
                              (existing_machines_to_allocate plan)
                              new_machine_db_entries_added db2 of
                         (e, db') \<Rightarrow> (Inl e, db'))
                  | (None, new_machine_db_entries_added, db2) \<Rightarrow>
                      (Inr (UnorderedFlow subflow_name (allocation_subflow plan),
                            instance_minion_allocations plan),
                       db2))))"

section \<open>Releasing machines\<close>

text \<open>
  \<^verbatim>\<open>deallocate_minion_machine\<close>. The row is looked up first; when there is none the
  call returns at once. \<open>available_values\<close> is the dictionary
  \<^verbatim>\<open>{"status": MINION_MACHINE_STATUS_AVAILABLE, "allocated_action": None}\<close> of the
  update.
\<close>

definition available_values :: "minion_machine \<Rightarrow> minion_machine" where
  "available_values m =
    m\<lparr>machine_status := MINION_MACHINE_STATUS_AVAILABLE, allocated_action := None\<rparr>"

definition deallocate_minion_machine :: "store \<Rightarrow> string \<Rightarrow> (error + unit) \<times> store" where
  "deallocate_minion_machine db minion_machine_id =
    (case db_get_minion_machine db minion_machine_id of
       None \<Rightarrow> (Inr (), db)
     | Some minion_machine \<Rightarrow>
         (case db_update_minion_machine (machine_id minion_machine) available_values db of
            Inl e \<Rightarrow> (Inl e, db)
          | Inr db' \<Rightarrow> (Inr (), db')))"

text \<open>
  \<^verbatim>\<open>deallocate_minion_machines_for_action\<close>: the machines of the action grouped by
  pool; in each pool the \<^verbatim>\<open>UNINITIALIZED\<close> rows are deleted and the others are set
  \<^verbatim>\<open>AVAILABLE\<close> in one batch.
\<close>

fun categorise_by_pool ::
  "minion_machine list \<Rightarrow> (string \<times> minion_machine list) list
     \<Rightarrow> (string \<times> minion_machine list) list" where
  "categorise_by_pool [] pool_machine_mappings = pool_machine_mappings"
| "categorise_by_pool (machine # machines) pool_machine_mappings =
    categorise_by_pool machines
      (case map_of pool_machine_mappings (machine_pool_id machine) of
         None \<Rightarrow> dict_set (machine_pool_id machine) [machine] pool_machine_mappings
       | Some ms \<Rightarrow> dict_set (machine_pool_id machine) (ms @ [machine]) pool_machine_mappings)"

fun sweep_pool_machines ::
  "minion_machine list \<Rightarrow> string list \<Rightarrow> store \<Rightarrow> (error + string list) \<times> store" where
  "sweep_pool_machines [] machine_ids_to_deallocate db = (Inr machine_ids_to_deallocate, db)"
| "sweep_pool_machines (machine # machines) machine_ids_to_deallocate db =
    (if machine_status machine = MINION_MACHINE_STATUS_UNINITIALIZED
     then (case db_delete_minion_machine (machine_id machine) db of
             Inl e \<Rightarrow> (Inl e, db)
           | Inr db' \<Rightarrow> sweep_pool_machines machines machine_ids_to_deallocate db')
     else sweep_pool_machines machines
            (machine_ids_to_deallocate @ [machine_id machine]) db)"

fun sweep_pools ::
  "int \<Rightarrow> (string \<times> minion_machine list) list \<Rightarrow> store \<Rightarrow> (error + unit) \<times> store" where
  "sweep_pools now [] db = (Inr (), db)"
| "sweep_pools now ((pid, pool_machines) # rest) db =
    (case sweep_pool_machines pool_machines [] db of
       (Inl e, db') \<Rightarrow> (Inl e, db')
     | (Inr machine_ids_to_deallocate, db') \<Rightarrow>
         (case db_set_minion_machines_allocation_statuses now machine_ids_to_deallocate
                 None MINION_MACHINE_STATUS_AVAILABLE False db' of
            Inl e \<Rightarrow> (Inl e, db')
          | Inr db'' \<Rightarrow> sweep_pools now rest db''))"

definition deallocate_minion_machines_for_action ::
  "int \<Rightarrow> store \<Rightarrow> string \<Rightarrow> (error + unit) \<times> store" where
  "deallocate_minion_machines_for_action now db action_id =
    (let allocated_minion_machines = db_get_minion_machines db action_id
     in if allocated_minion_machines = [] then (Inr (), db)
        else sweep_pools now (categorise_by_pool allocated_minion_machines []) db)"

text \<open>
  \<^verbatim>\<open>_cleanup_machines_with_statuses_for_action\<close>: the machines of the action whose status
  is targeted and whose pool is not excluded are grouped by pool and deleted. An
  \<^verbatim>\<open>exclude_pools\<close> of \<^verbatim>\<open>None\<close> is the empty list.
\<close>

fun cleanup_categorise ::
  "minion_machine_status list \<Rightarrow> string list \<Rightarrow> minion_machine list
     \<Rightarrow> (string \<times> minion_machine list) list \<Rightarrow> (string \<times> minion_machine list) list" where
  "cleanup_categorise targeted_statuses exclude_pools [] pool_machine_mappings =
     pool_machine_mappings"
| "cleanup_categorise targeted_statuses exclude_pools (machine # machines)
       pool_machine_mappings =
    (if machine_status machine \<notin> set targeted_statuses
     then cleanup_categorise targeted_statuses exclude_pools machines pool_machine_mappings
     else if machine_pool_id machine \<in> set exclude_pools
     then cleanup_categorise targeted_statuses exclude_pools machines pool_machine_mappings
     else cleanup_categorise targeted_statuses exclude_pools machines
            (case map_of pool_machine_mappings (machine_pool_id machine) of
               None \<Rightarrow> dict_set (machine_pool_id machine) [machine] pool_machine_mappings
             | Some ms \<Rightarrow>
                 dict_set (machine_pool_id machine) (ms @ [machine]) pool_machine_mappings))"

fun delete_machines :: "minion_machine list \<Rightarrow> store \<Rightarrow> error option \<times> store" where
  "delete_machines [] db = (None, db)"
| "delete_machines (machine # machines) db =
    (case db_delete_minion_machine (machine_id machine) db of
       Inl e \<Rightarrow> (Some e, db)
     | Inr db' \<Rightarrow> delete_machines machines db')"

fun cleanup_pools ::
  "(string \<times> minion_machine list) list \<Rightarrow> store \<Rightarrow> error option \<times> store" where
  "cleanup_pools [] db = (None, db)"
| "cleanup_pools ((pid, machines) # rest) db =
    (case delete_machines machines db of
       (Some e, db') \<Rightarrow> (Some e, db')
     | (None, db') \<Rightarrow> cleanup_pools rest db')"

definition cleanup_machines_with_statuses_for_action ::
  "store \<Rightarrow> string \<Rightarrow> minion_machine_status list \<Rightarrow> string list option
     \<Rightarrow> (error + unit) \<times> store" where
  "cleanup_machines_with_statuses_for_action db action_id targeted_statuses exclude_pools =
    (let excluded = (case exclude_pools of None \<Rightarrow> [] | Some pools \<Rightarrow> pools);
         machines = db_get_minion_machines db action_id
     in if machines = [] then (Inr (), db)
        else case cleanup_pools
                    (cleanup_categorise targeted_statuses excluded machines []) db of
               (Some e, db') \<Rightarrow> (Inl e, db')
             | (None, db') \<Rightarrow> (Inr (), db'))"

section \<open>Validating the pool selections of an action\<close>

text \<open>
  The action dictionary with the keys that \<^verbatim>\<open>_check_keys_for_action_dict\<close> requires.
  A value that may be \<^verbatim>\<open>None\<close> is an option.
\<close>

record action =
  action_id :: string
  origin_endpoint_id :: string
  destination_endpoint_id :: string
  origin_minion_pool_id :: "string option"
  destination_minion_pool_id :: "string option"
  instance_osmorphing_minion_pool_mappings :: "(string \<times> string) list option"
  instances :: "string list"

text \<open>The truth value of an optional string: \<^verbatim>\<open>None\<close> and \<^verbatim>\<open>''\<close> are false.\<close>

definition truthy_id :: "string option \<Rightarrow> string option" where
  "truthy_id v = (case v of None \<Rightarrow> None | Some s \<Rightarrow> if s = [] then None else Some s)"

text \<open>The dictionary \<^verbatim>\<open>{pool.id: pool for pool in db_api.get_minion_pools(...)}\<close> and
  the local function \<^verbatim>\<open>_get_pool\<close>.\<close>

definition minion_pools_dict :: "minion_pool list \<Rightarrow> (string \<times> minion_pool) list" where
  "minion_pools_dict pools = fold (\<lambda>pool d. dict_set (pool_id pool) pool d) pools []"

definition get_pool :: "(string \<times> minion_pool) list \<Rightarrow> string \<Rightarrow> error + minion_pool" where
  "get_pool minion_pools pid =
    (case map_of minion_pools pid of None \<Rightarrow> Inl NotFound | Some pool \<Rightarrow> Inr pool)"

text \<open>The local function \<^verbatim>\<open>_check_pool_minion_count\<close>.\<close>

definition check_pool_minion_count :: "minion_pool \<Rightarrow> string list \<Rightarrow> error + unit" where
  "check_pool_minion_count minion_pool pool_instances =
    (let desired_minion_count = int (length pool_instances)
     in if pool_status minion_pool \<noteq> MINION_POOL_STATUS_ALLOCATED
        then Inl InvalidMinionPoolState
        else if desired_minion_count > maximum_minions minion_pool
        then Inl InvalidMinionPoolSelection
        else Inr ())"

text \<open>The block \<^verbatim>\<open># check source pool\<close>.\<close>

definition check_origin_pool :: "(string \<times> minion_pool) list \<Rightarrow> action \<Rightarrow> error + unit" where
  "check_origin_pool minion_pools act =
    (case truthy_id (origin_minion_pool_id act) of
       None \<Rightarrow> Inr ()
     | Some pid \<Rightarrow>
         (case get_pool minion_pools pid of
            Inl e \<Rightarrow> Inl e
          | Inr origin_pool \<Rightarrow>
              if pool_endpoint_id origin_pool \<noteq> origin_endpoint_id act
              then Inl InvalidMinionPoolSelection
              else if pool_platform origin_pool \<noteq> PROVIDER_PLATFORM_SOURCE
              then Inl InvalidMinionPoolSelection
              else if pool_os_type origin_pool \<noteq> OS_TYPE_LINUX
              then Inl InvalidMinionPoolSelection
              else check_pool_minion_count origin_pool (instances act)))"

text \<open>The block \<^verbatim>\<open># check destination pool\<close>.\<close>

definition check_destination_pool ::
  "(string \<times> minion_pool) list \<Rightarrow> action \<Rightarrow> error + unit" where
  "check_destination_pool minion_pools act =
    (case truthy_id (destination_minion_pool_id act) of
       None \<Rightarrow> Inr ()
     | Some pid \<Rightarrow>
         (case get_pool minion_pools pid of
            Inl e \<Rightarrow> Inl e
          | Inr destination_pool \<Rightarrow>
              if pool_endpoint_id destination_pool \<noteq> destination_endpoint_id act
              then Inl InvalidMinionPoolSelection
              else if pool_platform destination_pool \<noteq> PROVIDER_PLATFORM_DESTINATION
              then Inl InvalidMinionPoolSelection
              else if pool_os_type destination_pool \<noteq> OS_TYPE_LINUX
              then Inl InvalidMinionPoolSelection
              else check_pool_minion_count destination_pool (instances act)))"

text \<open>
  The block \<^verbatim>\<open># check OSMorphing pool(s)\<close>: the mappings of instances that the action
  declares are grouped by pool, then each pool is checked. No check reads the pool's
  \<^verbatim>\<open>os_type\<close>.
\<close>

fun group_osmorphing_pool_mappings ::
  "string list \<Rightarrow> (string \<times> string) list \<Rightarrow> (string \<times> string list) list
     \<Rightarrow> (string \<times> string list) list" where
  "group_osmorphing_pool_mappings insts [] osmorphing_pool_mappings =
     osmorphing_pool_mappings"
| "group_osmorphing_pool_mappings insts ((instance_id, pid) # rest)
       osmorphing_pool_mappings =
    (if instance_id \<notin> set insts
     then group_osmorphing_pool_mappings insts rest osmorphing_pool_mappings
     else group_osmorphing_pool_mappings insts rest
            (case map_of osmorphing_pool_mappings pid of
               None \<Rightarrow> dict_set pid [instance_id] osmorphing_pool_mappings
             | Some ids \<Rightarrow> dict_set pid (ids @ [instance_id]) osmorphing_pool_mappings))"

fun check_osmorphing_pools ::
  "(string \<times> minion_pool) list \<Rightarrow> action \<Rightarrow> (string \<times> string list) list
     \<Rightarrow> error + unit" where
  "check_osmorphing_pools minion_pools act [] = Inr ()"
| "check_osmorphing_pools minion_pools act ((pid, instances_to_osmorph) # rest) =
    (case get_pool minion_pools pid of
       Inl e \<Rightarrow> Inl e
     | Inr osmorphing_pool \<Rightarrow>
         if pool_endpoint_id osmorphing_pool \<noteq> destination_endpoint_id act
         then Inl InvalidMinionPoolSelection
         else if pool_platform osmorphing_pool \<noteq> PROVIDER_PLATFORM_DESTINATION
         then Inl InvalidMinionPoolSelection
         else (case check_pool_minion_count osmorphing_pool instances_to_osmorph of
                 Inl e \<Rightarrow> Inl e
               | Inr u \<Rightarrow> check_osmorphing_pools minion_pools act rest))"

definition check_osmorphing_pool_mappings ::
  "(string \<times> minion_pool) list \<Rightarrow> action \<Rightarrow> error + unit" where
  "check_osmorphing_pool_mappings minion_pools act =
    (case instance_osmorphing_minion_pool_mappings act of
       None \<Rightarrow> Inr ()
     | Some mappings \<Rightarrow>
         if mappings = [] then Inr ()
         else check_osmorphing_pools minion_pools act
                (group_osmorphing_pool_mappings (instances act) mappings []))"

text \<open>
  \<^verbatim>\<open>validate_minion_pool_selections_for_action\<close>, for an action that has the required
  keys: it returns nothing or raises the first error met.
\<close>

definition validate_minion_pool_selections_for_action :: "store \<Rightarrow> action \<Rightarrow> error + unit" where
  "validate_minion_pool_selections_for_action db act =
    (let minion_pools = minion_pools_dict (db_pools db)
     in case check_origin_pool minion_pools act of
          Inl e \<Rightarrow> Inl e
        | Inr u \<Rightarrow>
            (case check_destination_pool minion_pools act of
               Inl e \<Rightarrow> Inl e
             | Inr u' \<Rightarrow> check_osmorphing_pool_mappings minion_pools act))"

section \<open>Deallocating a pool\<close>

text \<open>
  The peers the server calls out to: \<open>conductor_get_endpoint\<close> and
  \<open>runner_run_flow_in_background\<close> give the exception that the call raises, if any.
\<close>

record services =
  conductor_get_endpoint :: "string \<Rightarrow> error option"
  runner_run_flow_in_background :: "flow \<Rightarrow> error option"

text \<open>\<^verbatim>\<open>_check_pool_machines_in_use\<close>.\<close>

definition check_pool_machines_in_use ::
  "store \<Rightarrow> minion_pool \<Rightarrow> bool \<Rightarrow> bool \<Rightarrow> error + minion_machine list" where
  "check_pool_machines_in_use db minion_pool raise_if_in_use requery =
    (case (if requery then get_minion_pool db (pool_id minion_pool) True
           else Inr minion_pool) of
       Inl e \<Rightarrow> Inl e
     | Inr pool \<Rightarrow>
         (let unused_machine_states =
                [MINION_MACHINE_STATUS_AVAILABLE,
                 MINION_MACHINE_STATUS_ERROR_DEPLOYING,
                 MINION_MACHINE_STATUS_ERROR];
              used_machines =
                filter (\<lambda>mch. machine_status mch \<notin> set unused_machine_states)
                  (minion_machines pool)
          in if used_machines \<noteq> [] \<and> raise_if_in_use
             then Inl InvalidMinionPoolState
             else Inr used_machines))"

text \<open>
  \<^verbatim>\<open>deallocate_minion_pool\<close>. The result is what the call returns or raises, the store
  it leaves, and the flows it handed to the runner. The bare \<^verbatim>\<open>except\<close> restores the
  status and re-raises; an exception of the restoring call replaces the one handled. The
  initial store of the flow, a dictionary built from the endpoint and the pool, is handed to
  the runner with the flow and is not part of the model.
\<close>

definition deallocate_minion_pool ::
  "services \<Rightarrow> store \<Rightarrow> string \<Rightarrow> bool \<Rightarrow> (error + minion_pool) \<times> store \<times> flow list" where
  "deallocate_minion_pool svc db minion_pool_id force =
    (case get_minion_pool db minion_pool_id True of
       Inl e \<Rightarrow> (Inl e, db, [])
     | Inr minion_pool \<Rightarrow>
         (let current_status = pool_status minion_pool
          in if current_status = MINION_POOL_STATUS_DEALLOCATED
             then (get_minion_pool db (pool_id minion_pool) True, db, [])
             else if current_status \<notin> set [MINION_POOL_STATUS_ALLOCATED,
                                              MINION_POOL_STATUS_ERROR] \<and> \<not> force
             then (Inl InvalidMinionPoolState, db, [])
             else case check_pool_machines_in_use db minion_pool (\<not> force) False of
               Inl e \<Rightarrow> (Inl e, db, [])
             | Inr used \<Rightarrow>
                 (case conductor_get_endpoint svc (pool_endpoint_id minion_pool) of
                    Some e \<Rightarrow> (Inl e, db, [])
                  | None \<Rightarrow>
                      (let deallocation_flow =
                             get_minion_pool_deallocation_flow minion_pool
                       in case db_set_minion_pool_status minion_pool_id
                                 MINION_POOL_STATUS_POOL_MAINTENANCE db of
                            Inl ex \<Rightarrow>
                              (case db_set_minion_pool_status minion_pool_id
                                      current_status db of
                                 Inl e \<Rightarrow> (Inl e, db, [])
                               | Inr db' \<Rightarrow> (Inl ex, db', []))
                          | Inr db1 \<Rightarrow>
                              (case runner_run_flow_in_background svc deallocation_flow of
                                 Some ex \<Rightarrow>
                                   (case db_set_minion_pool_status minion_pool_id
                                           current_status db1 of
                                      Inl e \<Rightarrow> (Inl e, db1, [])
                                    | Inr db' \<Rightarrow> (Inl ex, db', []))
                               | None \<Rightarrow>
                                   (get_minion_pool db1 (pool_id minion_pool) True, db1,
                                    [deallocation_flow]))))))"

section \<open>Refreshing a pool\<close>

text \<open>The local variables of \<^verbatim>\<open>_get_minion_pool_refresh_flow\<close>.\<close>

record refresh_plan =
  pool_refresh_flow :: "flow list"
  max_minions_to_deallocate :: int
  machines_to_deallocate :: "string list"
  machines_to_healthcheck :: "string list"
  skipped_machines :: "(string \<times> minion_machine_status) list"

text \<open>
  Python's \<^verbatim>\<open>datetime\<close> arithmetic. A \<^verbatim>\<open>datetime\<close> lies between \<^verbatim>\<open>datetime.min\<close>
  (year 1) and \<^verbatim>\<open>datetime.max\<close> (the last microsecond of year 9999, 3652059 days later);
  as a count of microseconds since \<^verbatim>\<open>datetime.min\<close> it lies in \<open>[0, datetime_range)\<close>.
  \<^verbatim>\<open>datetime.timedelta(seconds=s)\<close> raises \<^verbatim>\<open>OverflowError\<close> unless its whole days,
  \<open>s div 86400\<close>, lie within 999999999 of zero; adding a \<^verbatim>\<open>timedelta\<close> to a
  \<^verbatim>\<open>datetime\<close> raises \<^verbatim>\<open>OverflowError\<close> when the sum is no \<^verbatim>\<open>datetime\<close>.
\<close>

definition datetime_range :: int where
  "datetime_range = 3652059 * 86400 * 1000000"

definition timedelta_seconds :: "int \<Rightarrow> error + int" where
  "timedelta_seconds s =
    (if - 999999999 \<le> s div 86400 \<and> s div 86400 \<le> 999999999
     then Inr (s * 1000000)
     else Inl OverflowError)"

definition datetime_add :: "int \<Rightarrow> int \<Rightarrow> error + int" where
  "datetime_add t delta =
    (if 0 \<le> t + delta \<and> t + delta < datetime_range
     then Inr (t + delta)
     else Inl OverflowError)"

text \<open>
  The flag \<^verbatim>\<open>minion_expired\<close> of the loop body: \<^verbatim>\<open>True\<close> unless the machine has a
  \<^verbatim>\<open>last_used_at\<close> (a datetime, which is always true); then the expiry time
  \<^verbatim>\<open>machine.last_used_at + datetime.timedelta(seconds=minion_pool.minion_max_idle_time)\<close>
  is computed, which may raise, and compared with \<open>now\<close>.
\<close>

definition minion_expired :: "int \<Rightarrow> minion_pool \<Rightarrow> minion_machine \<Rightarrow> error + bool" where
  "minion_expired now pool machine =
    (case last_used_at machine of
       None \<Rightarrow> Inr True
     | Some used \<Rightarrow>
         (case timedelta_seconds (minion_max_idle_time pool) of
            Inl e \<Rightarrow> Inl e
          | Inr delta \<Rightarrow>
              (case datetime_add used delta of
                 Inl e \<Rightarrow> Inl e
               | Inr expiry_time \<Rightarrow> Inr (expiry_time \<le> now))))"

text \<open>
  The body of the loop \<^verbatim>\<open>for machine in minion_pool.minion_machines\<close>: the plan after
  the machine, or the exception raised on it.
\<close>

definition refresh_step ::
  "int \<Rightarrow> minion_pool \<Rightarrow> minion_machine \<Rightarrow> refresh_plan \<Rightarrow> error + refresh_plan" where
  "refresh_step now pool machine plan =
    (if machine_status machine \<noteq> MINION_MACHINE_STATUS_AVAILABLE
     then Inr (plan\<lparr>skipped_machines :=
                       dict_set (machine_id machine) (machine_status machine)
                         (skipped_machines plan)\<rparr>)
     else
       (case minion_expired now pool machine of
          Inl e \<Rightarrow> Inl e
        | Inr expired \<Rightarrow>
            if max_minions_to_deallocate plan > 0 \<and> expired
            then Inr (plan\<lparr>pool_refresh_flow :=
                              pool_refresh_flow plan @
                                [Task (DeallocateMinionMachineTask (pool_id pool)
                                         (machine_id machine) (pool_platform pool))],
                            max_minions_to_deallocate :=
                              max_minions_to_deallocate plan - 1,
                            machines_to_deallocate :=
                              machines_to_deallocate plan @ [machine_id machine]\<rparr>)
            else Inr (plan\<lparr>pool_refresh_flow :=
                              pool_refresh_flow plan @
                                [get_healtchcheck_flow_for_minion_machine pool
                                   (machine_id machine) None
                                   MINION_MACHINE_STATUS_AVAILABLE],
                            machines_to_healthcheck :=
                              machines_to_healthcheck plan @ [machine_id machine]\<rparr>)))"

text \<open>The loop runs the body on the machines of the pool in order and stops at the first
  exception.\<close>

fun refresh_loop ::
  "int \<Rightarrow> minion_pool \<Rightarrow> minion_machine list \<Rightarrow> refresh_plan \<Rightarrow> error + refresh_plan" where
  "refresh_loop now pool [] plan = Inr plan"
| "refresh_loop now pool (machine # machines) plan =
    (case refresh_step now pool machine plan of
       Inl e \<Rightarrow> Inl e
     | Inr plan' \<Rightarrow> refresh_loop now pool machines plan')"

text \<open>The loops that write the new statuses; an exception ends the loop it occurs in.\<close>

fun set_minion_machine_statuses ::
  "string list \<Rightarrow> minion_machine_status \<Rightarrow> store \<Rightarrow> error option \<times> store" where
  "set_minion_machine_statuses [] status db = (None, db)"
| "set_minion_machine_statuses (machine # machines) status db =
    (case db_set_minion_machine_status machine status db of
       Inl e \<Rightarrow> (Some e, db)
     | Inr db' \<Rightarrow> set_minion_machine_statuses machines status db')"

definition initial_refresh_plan :: "minion_pool \<Rightarrow> refresh_plan" where
  "initial_refresh_plan pool =
    \<lparr> pool_refresh_flow = [],
      max_minions_to_deallocate =
        int (length (minion_machines pool)) - minimum_minions pool,
      machines_to_deallocate = [],
      machines_to_healthcheck = [],
      skipped_machines = [] \<rparr>"

text \<open>\<^verbatim>\<open>_get_minion_pool_refresh_flow\<close>: the flow, or the exception, and the store.\<close>

definition get_minion_pool_refresh_flow ::
  "int \<Rightarrow> store \<Rightarrow> minion_pool \<Rightarrow> bool \<Rightarrow> (error + flow) \<times> store" where
  "get_minion_pool_refresh_flow now db minion_pool requery =
    (case (if requery then get_minion_pool db (pool_id minion_pool) True
           else Inr minion_pool) of
       Inl e \<Rightarrow> (Inl e, db)
     | Inr pool \<Rightarrow>
         (case refresh_loop now pool (minion_machines pool) (initial_refresh_plan pool) of
            Inl e \<Rightarrow> (Inl e, db)
          | Inr plan \<Rightarrow>
              (case set_minion_machine_statuses (machines_to_deallocate plan)
                      MINION_MACHINE_STATUS_DEALLOCATING db of
                 (Some e, db1) \<Rightarrow> (Inl e, db1)
               | (None, db1) \<Rightarrow>
                   (case set_minion_machine_statuses (machines_to_healthcheck plan)
                           MINION_MACHINE_STATUS_HEALTHCHECKING db1 of
                      (Some e, db2) \<Rightarrow> (Inl e, db2)
                    | (None, db2) \<Rightarrow>
                        (Inr (UnorderedFlow
                                (MINION_POOL_REFRESH_FLOW_NAME_FORMAT (pool_id pool))
                                (pool_refresh_flow plan)),
                         db2)))))"

section \<open>Auxiliary definitions\<close>

subsection \<open>Notions used in the statements\<close>

text \<open>The store in which every row with the given id has been written available.\<close>

definition released :: "store \<Rightarrow> string \<Rightarrow> store" where
  "released db mid =
     db\<lparr>db_machines :=
          map (\<lambda>m. if machine_id m = mid then available_values m else m) (db_machines db)\<rparr>"

text \<open>
  \<open>written_rows P db db'\<close>: every machine row of \<open>db'\<close> that is not a row of \<open>db\<close>, that
  is every row created or changed on the way from \<open>db\<close> to \<open>db'\<close>, satisfies \<open>P\<close>.
\<close>

definition written_rows :: "(minion_machine \<Rightarrow> bool) \<Rightarrow> store \<Rightarrow> store \<Rightarrow> bool" where
  "written_rows P db db' =
     list_all (\<lambda>m. m \<in> set (db_machines db) \<or> P m) (db_machines db')"

text \<open>
  The rows that a reservation for the action \<open>aid\<close> writes, and the rows that a release
  writes.
\<close>

definition reserved_row :: "string \<Rightarrow> minion_machine \<Rightarrow> bool" where
  "reserved_row aid m =
     ((machine_status m = MINION_MACHINE_STATUS_IN_USE \<and> allocated_action m = Some aid)
      \<or> (machine_status m = MINION_MACHINE_STATUS_UNINITIALIZED \<and> allocated_action m = Some aid)
      \<or> (machine_status m = MINION_MACHINE_STATUS_AVAILABLE \<and> allocated_action m = None))"

definition released_row :: "minion_machine \<Rightarrow> bool" where
  "released_row m =
     (machine_status m = MINION_MACHINE_STATUS_AVAILABLE \<and> allocated_action m = None)"

text \<open>
  \<open>restatused S m m'\<close>: the row \<open>m'\<close> is the row \<open>m\<close>, or \<open>m\<close> with only its status
  changed, to \<^verbatim>\<open>DEALLOCATING\<close> or \<^verbatim>\<open>HEALTHCHECKING\<close>, and then the id of \<open>m\<close> is
  in \<open>S\<close>.
\<close>

definition restatused :: "string set \<Rightarrow> minion_machine \<Rightarrow> minion_machine \<Rightarrow> bool" where
  "restatused S m m' =
     (m' = m
      \<or> (machine_id m \<in> S
          \<and> (m' = m\<lparr>machine_status := MINION_MACHINE_STATUS_DEALLOCATING\<rparr>
               \<or> m' = m\<lparr>machine_status := MINION_MACHINE_STATUS_HEALTHCHECKING\<rparr>)))"

text \<open>The dictionary of the pools with every \<^verbatim>\<open>os_type\<close> replaced.\<close>

definition with_os_type :: "(minion_pool \<Rightarrow> string) \<Rightarrow> (string \<times> minion_pool) list
    \<Rightarrow> (string \<times> minion_pool) list" where
  "with_os_type f minion_pools =
     map (\<lambda>kp. (fst kp, (snd kp)\<lparr>pool_os_type := f (snd kp)\<rparr>)) minion_pools"

subsection \<open>Concrete inputs\<close>

text \<open>
  The pool of the spec's scenarios, machines of it, and stores that hold them; \<open>no_faults\<close>
  is the database in which no call raises.
\<close>

definition no_faults :: "db_call \<Rightarrow> error option" where
  "no_faults c = None"

definition pool_p1 :: minion_pool where
  "pool_p1 =
    \<lparr> pool_id = ''p1'', pool_endpoint_id = ''e1'', pool_platform = ''destination'',
      pool_os_type = ''linux'', pool_status = MINION_POOL_STATUS_ALLOCATED,
      minimum_minions = 2, maximum_minions = 4, minion_max_idle_time = 600,
      minion_machines = [] \<rparr>"

definition machine_m0 :: minion_machine where
  "machine_m0 =
    \<lparr> machine_id = ''m0'', machine_pool_id = ''p1'',
      machine_status = MINION_MACHINE_STATUS_AVAILABLE,
      allocated_action = None, last_used_at = None \<rparr>"

definition machine_m1 :: minion_machine where
  "machine_m1 =
    \<lparr> machine_id = ''m1'', machine_pool_id = ''p1'',
      machine_status = MINION_MACHINE_STATUS_AVAILABLE,
      allocated_action = None, last_used_at = Some 1000 \<rparr>"

definition machine_m2 :: minion_machine where
  "machine_m2 =
    \<lparr> machine_id = ''m2'', machine_pool_id = ''p1'',
      machine_status = MINION_MACHINE_STATUS_IN_USE,
      allocated_action = Some ''a0'', last_used_at = Some 1000 \<rparr>"

definition machine_n1 :: minion_machine where
  "machine_n1 =
    \<lparr> machine_id = ''n1'', machine_pool_id = ''p1'',
      machine_status = MINION_MACHINE_STATUS_UNINITIALIZED,
      allocated_action = Some ''a1'', last_used_at = None \<rparr>"

definition store_empty :: store where
  "store_empty = \<lparr> db_pools = [pool_p1], db_machines = [], db_faults = no_faults \<rparr>"

definition store_m0 :: store where
  "store_m0 = \<lparr> db_pools = [pool_p1], db_machines = [machine_m0], db_faults = no_faults \<rparr>"

definition store_m012 :: store where
  "store_m012 =
    \<lparr> db_pools = [pool_p1], db_machines = [machine_m0, machine_m1, machine_m2],
      db_faults = no_faults \<rparr>"

definition pool_p1_m0 :: minion_pool where
  "pool_p1_m0 = pool_p1\<lparr>minion_machines := [machine_m0]\<rparr>"

definition pool_p1_m012 :: minion_pool where
  "pool_p1_m012 = pool_p1\<lparr>minion_machines := [machine_m0, machine_m1, machine_m2]\<rparr>"

text \<open>
  A uuid source that draws \<^verbatim>\<open>n1\<close> and then \<^verbatim>\<open>n2\<close>, and a database in which the insertion
  of the row \<^verbatim>\<open>n2\<close> raises.
\<close>

definition uuid4_n :: "nat \<Rightarrow> string" where
  "uuid4_n k = (if k = 0 then ''n1'' else ''n2'')"

definition fault_add_n2 :: "db_call \<Rightarrow> error option" where
  "fault_add_n2 c = (if c = DB_add_minion_machine ''n2'' then Some DBError else None)"

definition store_m0_fault :: store where
  "store_m0_fault =
     \<lparr> db_pools = [pool_p1], db_machines = [machine_m0], db_faults = fault_add_n2 \<rparr>"

text \<open>
  A source pool, a destination pool of \<^verbatim>\<open>os_type\<close> \<^verbatim>\<open>windows\<close>, and actions that select
  them.
\<close>

definition pool_source :: minion_pool where
  "pool_source =
    \<lparr> pool_id = ''p0'', pool_endpoint_id = ''e0'', pool_platform = ''source'',
      pool_os_type = ''linux'', pool_status = MINION_POOL_STATUS_ALLOCATED,
      minimum_minions = 1, maximum_minions = 4, minion_max_idle_time = 600,
      minion_machines = [] \<rparr>"

definition pool_windows :: minion_pool where
  "pool_windows =
    \<lparr> pool_id = ''p2'', pool_endpoint_id = ''e1'', pool_platform = ''destination'',
      pool_os_type = ''windows'', pool_status = MINION_POOL_STATUS_ALLOCATED,
      minimum_minions = 1, maximum_minions = 4, minion_max_idle_time = 600,
      minion_machines = [] \<rparr>"

definition store_pools :: store where
  "store_pools =
    \<lparr> db_pools = [pool_source, pool_p1, pool_windows], db_machines = [],
      db_faults = no_faults \<rparr>"

definition action_osmorphing_windows :: action where
  "action_osmorphing_windows =
    \<lparr> action_id = ''a1'', origin_endpoint_id = ''e0'', destination_endpoint_id = ''e1'',
      origin_minion_pool_id = Some ''p0'', destination_minion_pool_id = Some ''p1'',
      instance_osmorphing_minion_pool_mappings = Some [(''vm1'', ''p2'')],
      instances = [''vm1''] \<rparr>"

definition action_destination_windows :: action where
  "action_destination_windows =
    \<lparr> action_id = ''a2'', origin_endpoint_id = ''e0'', destination_endpoint_id = ''e1'',
      origin_minion_pool_id = Some ''p0'', destination_minion_pool_id = Some ''p2'',
      instance_osmorphing_minion_pool_mappings = None,
      instances = [''vm1''] \<rparr>"

text \<open>A deallocated pool, a pool under maintenance, and peers that do not fail.\<close>

definition pool_deallocated :: minion_pool where
  "pool_deallocated =
    \<lparr> pool_id = ''p4'', pool_endpoint_id = ''e1'', pool_platform = ''destination'',
      pool_os_type = ''linux'', pool_status = MINION_POOL_STATUS_DEALLOCATED,
      minimum_minions = 0, maximum_minions = 4, minion_max_idle_time = 600,
      minion_machines = [] \<rparr>"

definition pool_maintenance :: minion_pool where
  "pool_maintenance =
    \<lparr> pool_id = ''p5'', pool_endpoint_id = ''e1'', pool_platform = ''destination'',
      pool_os_type = ''linux'', pool_status = MINION_POOL_STATUS_POOL_MAINTENANCE,
      minimum_minions = 0, maximum_minions = 4, minion_max_idle_time = 600,
      minion_machines = [] \<rparr>"

definition store_p45 :: store where
  "store_p45 =
    \<lparr> db_pools = [pool_deallocated, pool_maintenance], db_machines = [],
      db_faults = no_faults \<rparr>"

definition services_ok :: services where
  "services_ok =
    \<lparr> conductor_get_endpoint = (\<lambda>e. None),
      runner_run_flow_in_background = (\<lambda>f. None) \<rparr>"

section \<open>Properties of the refresh schedule\<close>

lemma effective_period_minutes_conf:
  "effective_period_minutes conf None =
     (if conf \<le> 0 then 1 else if conf > 60 then 10 else conf)"
  by (simp add: effective_period_minutes_def)

lemma effective_period_minutes_range:
  "1 \<le> effective_period_minutes conf pm \<and> effective_period_minutes conf pm \<le> 60"
  by (simp add: effective_period_minutes_def Let_def split: option.split)

lemma ceil_60_div_ceiling:
  assumes "0 < p"
  shows "int (ceil_60_div p) = \<lceil>60 / real_of_int p\<rceil>"
proof -
  have "\<lceil>60 / real_of_int p\<rceil> = - \<lfloor>real_of_int (- 60) / real_of_int p\<rfloor>"
    by (simp add: ceiling_def)
  also have "\<dots> = - ((- 60) div p)"
    by (simp only: floor_divide_of_int_eq)
  finally have e: "\<lceil>60 / real_of_int p\<rceil> = - ((- 60) div p)" .
  have "0 \<le> 60 / real_of_int p"
    using assms by simp
  then have "0 \<le> \<lceil>60 / real_of_int p\<rceil>"
    by (simp only: zero_le_ceiling)
  with e show ?thesis
    by (simp add: ceil_60_div_def)
qed

text \<open>
  C5 (as the code has it). With no explicit period, the period that is used is the configured
  value when it lies in [1, 60], 1 when the configured value is zero or negative, and the
  default 10 when it is greater than 60; it always lies in [1, 60].
\<close>

theorem C5_effective_period:
  "effective_period_minutes conf None =
     (if conf \<le> 0 then 1 else if conf > 60 then 10 else conf)
   \<and> 1 \<le> effective_period_minutes conf None
   \<and> effective_period_minutes conf None \<le> 60"
  using effective_period_minutes_conf [of conf] effective_period_minutes_range [of conf None]
  by simp

text \<open>
  C5 as stated fails: the configured value 0 lies outside [1, 60] and is replaced by 1, not by
  the default 10.
\<close>

theorem C5_counterexample:
  "(0::int) \<notin> {1..60} \<and> effective_period_minutes 0 None \<noteq> 10"
  by (simp add: effective_period_minutes_def)

lemma fold_cron_register:
  "fold (\<lambda>x. cron_register (f x)) xs jobs = jobs @ map f xs"
  by (induction xs arbitrary: jobs) (simp_all add: cron_register_def)

lemma register_refresh_jobs_append:
  "register_refresh_jobs_for_minion_pool conf pool pm jobs =
     jobs @ map (refresh_job (pool_id pool)) (refresh_minutes (effective_period_minutes conf pm))"
  by (simp add: register_refresh_jobs_for_minion_pool_def fold_cron_register)

lemma init_cron_concat:
  "init_cron conf pools jobs =
     jobs @ concat (map (\<lambda>pool.
        if pool_status pool = MINION_POOL_STATUS_ALLOCATED
        then map (refresh_job (pool_id pool))
               (refresh_minutes (effective_period_minutes conf None))
        else []) pools)"
  by (induction pools arbitrary: jobs) (simp_all add: register_refresh_jobs_append)

lemma set_refresh_minutes:
  assumes "0 < p"
  shows "set (refresh_minutes p) = {p * k | k. 0 \<le> k \<and> k < \<lceil>60 / real_of_int p\<rceil>}"
proof -
  have c: "\<lceil>60 / real_of_int p\<rceil> = int (ceil_60_div p)"
    using ceil_60_div_ceiling [OF assms] by simp
  show ?thesis
  proof (rule set_eqI, rule iffI)
    fix u assume "u \<in> set (refresh_minutes p)"
    then obtain i where "i < ceil_60_div p" "u = p * int i"
      by (auto simp: refresh_minutes_def)
    then show "u \<in> {p * k | k. 0 \<le> k \<and> k < \<lceil>60 / real_of_int p\<rceil>}"
      unfolding c by (intro CollectI exI [of _ "int i"]) simp
  next
    fix u assume "u \<in> {p * k | k. 0 \<le> k \<and> k < \<lceil>60 / real_of_int p\<rceil>}"
    then obtain k where k: "u = p * k" "0 \<le> k" "k < int (ceil_60_div p)"
      unfolding c by blast
    then have "nat k < ceil_60_div p" "u = p * int (nat k)" by simp_all
    then show "u \<in> set (refresh_minutes p)"
      unfolding refresh_minutes_def by (auto intro!: image_eqI [where x = "nat k"])
  qed
qed

lemma distinct_refresh_minutes:
  assumes "0 < p"
  shows "distinct (refresh_minutes p)"
  using assms by (simp add: refresh_minutes_def distinct_map inj_on_def)

text \<open>
  C9 (as the code has it). \<^verbatim>\<open>_init_cron\<close>, the routine written for the startup,
  registers, for each pool in status \<^verbatim>\<open>ALLOCATED\<close> and in the order of the pools, one
  refresh job per minute of the schedule, and nothing for a pool in another status. With P
  the period in use, the minutes of the schedule are the \<open>P * k\<close> for
  \<open>0 \<le> k < \<lceil>60 / P\<rceil>\<close>, each once. The constructor of the endpoint does not run the
  routine: a new endpoint has no job.
\<close>

theorem C9_init_cron_jobs:
  "init_cron conf pools jobs =
     jobs @ concat (map (\<lambda>pool.
        if pool_status pool = MINION_POOL_STATUS_ALLOCATED
        then map (refresh_job (pool_id pool))
               (refresh_minutes (effective_period_minutes conf None))
        else []) pools)
   \<and> set (refresh_minutes (effective_period_minutes conf None)) =
         {effective_period_minutes conf None * k | k.
            0 \<le> k \<and> k < \<lceil>60 / real_of_int (effective_period_minutes conf None)\<rceil>}
   \<and> distinct (refresh_minutes (effective_period_minutes conf None))
   \<and> endpoint_cron (endpoint_init conf db) = []"
proof -
  have p: "0 < effective_period_minutes conf None"
    using effective_period_minutes_range [of conf None] by simp
  have e: "endpoint_cron (endpoint_init conf db) = []"
    by (simp add: endpoint_init_def new_cron_def)
  show ?thesis
    using init_cron_concat [of conf pools jobs] set_refresh_minutes [OF p]
      distinct_refresh_minutes [OF p] e
    by (intro conjI)
qed

text \<open>
  C9 as stated fails: with the pool \<^verbatim>\<open>p1\<close> in status \<^verbatim>\<open>ALLOCATED\<close> in the store, the
  job for minute 0 that \<^verbatim>\<open>_init_cron\<close> would register is not a job of the endpoint once
  it has started.
\<close>

theorem C9_counterexample:
  "pool_p1 \<in> set (db_pools store_empty)
   \<and> pool_status pool_p1 = MINION_POOL_STATUS_ALLOCATED
   \<and> refresh_job ''p1'' 0 \<in> set (init_cron 10 (db_pools store_empty) [])
   \<and> refresh_job ''p1'' 0 \<notin> set (endpoint_cron (endpoint_init 10 store_empty))"
proof -
  have "refresh_minutes (effective_period_minutes 10 None) = [0, 10, 20, 30, 40, 50]"
    by (simp add: effective_period_minutes_def refresh_minutes_def ceil_60_div_def
          upt_conv_Cons)
  then have "refresh_job ''p1'' 0 \<in> set (init_cron 10 (db_pools store_empty) [])"
    by (simp add: init_cron_concat store_empty_def pool_p1_def)
  then show ?thesis
    by (simp add: store_empty_def pool_p1_def endpoint_init_def new_cron_def)
qed

section \<open>Properties of the reservation\<close>

text \<open>
  C6. When the action asks the pool for more machines than it has available plus the room
  left below \<^verbatim>\<open>maximum_minions\<close>, the reservation raises
  \<^verbatim>\<open>InvalidMinionPoolState\<close> and the store is the one it was called with.
\<close>

theorem C6_oversubscription_rejected:
  assumes "int (length action_instances) >
             int (length (filter (\<lambda>machine. machine_status machine =
                                      MINION_MACHINE_STATUS_AVAILABLE)
                            (minion_machines pool)))
             + (maximum_minions pool - int (length (minion_machines pool)))"
  shows "make_minion_machine_allocation_subflow_for_action uuid4 now db pool aid
           action_instances subflow_name = (Inl InvalidMinionPoolState, db)"
  using assms by (simp add: make_minion_machine_allocation_subflow_for_action_def Let_def)

theorem C6_oversubscription_rejected_witness:
  "int (length [''vm1'', ''vm2'', ''vm3'', ''vm4'', ''vm5'']) >
     int (length (filter (\<lambda>machine. machine_status machine =
                              MINION_MACHINE_STATUS_AVAILABLE)
                    (minion_machines pool_p1)))
     + (maximum_minions pool_p1 - int (length (minion_machines pool_p1)))
   \<and> make_minion_machine_allocation_subflow_for_action (\<lambda>k. ''m'') 0 store_empty
        pool_p1 ''a1'' [''vm1'', ''vm2'', ''vm3'', ''vm4'', ''vm5''] (FlowName ''f'')
       = (Inl InvalidMinionPoolState, store_empty)"
proof -
  have h: "int (length [''vm1'', ''vm2'', ''vm3'', ''vm4'', ''vm5'']) >
     int (length (filter (\<lambda>machine. machine_status machine =
                              MINION_MACHINE_STATUS_AVAILABLE)
                    (minion_machines pool_p1)))
     + (maximum_minions pool_p1 - int (length (minion_machines pool_p1)))"
    by (simp add: pool_p1_def)
  from h C6_oversubscription_rejected [OF h] show ?thesis
    by (rule conjI)
qed

section \<open>Properties of the release of a machine\<close>

lemma find_Some_id:
  "find (\<lambda>m. machine_id m = mid) ms = Some m \<Longrightarrow> machine_id m = mid \<and> m \<in> set ms"
  by (induction ms) (auto split: if_splits)

lemma deallocate_minion_machine_missing:
  "db_get_minion_machine db mid = None \<Longrightarrow> deallocate_minion_machine db mid = (Inr (), db)"
  by (simp add: deallocate_minion_machine_def)

lemma deallocate_minion_machine_present:
  assumes "db_get_minion_machine db mid = Some m"
      and "db_faults db (DB_update_minion_machine mid) = None"
  shows "deallocate_minion_machine db mid =
          (Inr (), db\<lparr>db_machines := map (\<lambda>m. if machine_id m = mid then available_values m else m) (db_machines db)\<rparr>)"
proof -
  have "machine_id m = mid"
    using assms(1) find_Some_id [of mid "db_machines db" m]
    by (simp add: db_get_minion_machine_def)
  then show ?thesis
    using assms by (simp add: deallocate_minion_machine_def db_update_minion_machine_def available_values_def)
qed

lemma find_map_release:
  "find (\<lambda>m. machine_id m = mid) (map (\<lambda>m. if machine_id m = mid then available_values m else m) ms)
     = map_option available_values (find (\<lambda>m. machine_id m = mid) ms)"
  by (induction ms) (simp_all add: available_values_def)

lemma map_release_twice:
  "map (\<lambda>m. if machine_id m = mid then available_values m else m)
     (map (\<lambda>m. if machine_id m = mid then available_values m else m) ms)
   = map (\<lambda>m. if machine_id m = mid then available_values m else m) ms"
  by (induction ms) (simp_all add: available_values_def)

lemma released_twice: "released (released db mid) mid = released db mid"
  by (simp add: released_def map_release_twice del: map_map)

lemma released_get:
  "db_get_minion_machine db mid = Some m \<Longrightarrow>
   db_get_minion_machine (released db mid) mid = Some (available_values m)"
  by (simp add: released_def db_get_minion_machine_def find_map_release)

lemma released_faults: "db_faults (released db mid) = db_faults db"
  by (simp add: released_def)

lemma release_row:
  "machine_id (if machine_id m = mid then available_values m else m) = mid \<longrightarrow>
     machine_status (if machine_id m = mid then available_values m else m) = MINION_MACHINE_STATUS_AVAILABLE
     \<and> allocated_action (if machine_id m = mid then available_values m else m) = None"
  by (simp add: available_values_def)

lemma map_release_rows:
  "\<forall>m \<in> set (map (\<lambda>m. if machine_id m = mid then available_values m else m) ms).
      machine_id m = mid \<longrightarrow>
        machine_status m = MINION_MACHINE_STATUS_AVAILABLE \<and> allocated_action m = None"
proof (intro ballI)
  fix m
  assume "m \<in> set (map (\<lambda>m. if machine_id m = mid then available_values m else m) ms)"
  then obtain m0 where "m = (if machine_id m0 = mid then available_values m0 else m0)"
    unfolding set_map by (rule imageE)
  then show "machine_id m = mid \<longrightarrow>
        machine_status m = MINION_MACHINE_STATUS_AVAILABLE \<and> allocated_action m = None"
    using release_row [of m0 mid] by (simp only:)
qed

lemma released_rows:
  "\<forall>m \<in> set (db_machines (released db mid)). machine_id m = mid \<longrightarrow>
      machine_status m = MINION_MACHINE_STATUS_AVAILABLE \<and> allocated_action m = None"
  unfolding released_def using map_release_rows [of mid "db_machines db"] by simp

lemma deallocate_minion_machine_released:
  assumes "db_get_minion_machine db mid = Some m"
      and "db_faults db (DB_update_minion_machine mid) = None"
  shows "deallocate_minion_machine db mid = (Inr (), released db mid)"
  using deallocate_minion_machine_present [OF assms] by (simp only: released_def)

lemma released_missing:
  assumes "db_get_minion_machine db mid = None"
  shows "released db mid = db"
proof -
  have "\<forall>m \<in> set (db_machines db). machine_id m \<noteq> mid"
    using assms by (simp add: db_get_minion_machine_def find_None_iff)
  then have "map (\<lambda>m. if machine_id m = mid then available_values m else m) (db_machines db)
               = db_machines db"
    by (induction "db_machines db") (simp_all add: map_idI)
  then show ?thesis
    by (simp add: released_def)
qed

lemma deallocate_minion_machine_store:
  assumes "db_faults db (DB_update_minion_machine mid) = None"
  shows "deallocate_minion_machine db mid = (Inr (), released db mid)"
proof (cases "db_get_minion_machine db mid")
  case None
  then show ?thesis
    by (simp add: deallocate_minion_machine_missing released_missing)
next
  case (Some m)
  then show ?thesis
    using assms by (rule deallocate_minion_machine_released)
qed


text \<open>
  C7. With the update of the row not failing in the database, \<^verbatim>\<open>deallocate_minion_machine\<close>
  returns normally and leaves the store with every row of the id written \<^verbatim>\<open>AVAILABLE\<close>
  with no allocated action and every other row, the pools and the rest as they were: an
  existing machine is kept, with its other columns, and is then \<^verbatim>\<open>AVAILABLE\<close> with no
  allocated action. A second call on the same id returns normally too and leaves the store of
  the first call as it is. When there is no row with the id the store is not touched.
\<close>

theorem C7_deallocate_minion_machine_idempotent:
  assumes "db_faults db (DB_update_minion_machine mid) = None"
  shows "fst (deallocate_minion_machine db mid) = Inr ()
       \<and> snd (deallocate_minion_machine db mid) =
           db\<lparr>db_machines :=
                map (\<lambda>m. if machine_id m = mid
                          then m\<lparr>machine_status := MINION_MACHINE_STATUS_AVAILABLE,
                                 allocated_action := None\<rparr>
                          else m)
                  (db_machines db)\<rparr>
       \<and> deallocate_minion_machine (snd (deallocate_minion_machine db mid)) mid
           = (Inr (), snd (deallocate_minion_machine db mid))
       \<and> (\<forall>m \<in> set (db_machines (snd (deallocate_minion_machine db mid))).
             machine_id m = mid \<longrightarrow>
               machine_status m = MINION_MACHINE_STATUS_AVAILABLE \<and> allocated_action m = None)
       \<and> (db_get_minion_machine db mid = None \<longrightarrow>
             snd (deallocate_minion_machine db mid) = db)
       \<and> (\<forall>m. db_get_minion_machine db mid = Some m \<longrightarrow>
             db_get_minion_machine (snd (deallocate_minion_machine db mid)) mid =
               Some (m\<lparr>machine_status := MINION_MACHINE_STATUS_AVAILABLE,
                       allocated_action := None\<rparr>))"
proof -
  have e: "deallocate_minion_machine db mid = (Inr (), released db mid)"
    using assms by (rule deallocate_minion_machine_store)
  have f: "db_faults (released db mid) (DB_update_minion_machine mid) = None"
    using assms by (simp only: released_faults)
  have e2: "deallocate_minion_machine (released db mid) mid = (Inr (), released db mid)"
    using deallocate_minion_machine_store [OF f] by (simp only: released_twice)
  have shape: "released db mid =
           db\<lparr>db_machines :=
                map (\<lambda>m. if machine_id m = mid
                          then m\<lparr>machine_status := MINION_MACHINE_STATUS_AVAILABLE,
                                 allocated_action := None\<rparr>
                          else m)
                  (db_machines db)\<rparr>"
    by (simp add: released_def available_values_def)
  have miss: "db_get_minion_machine db mid = None \<longrightarrow> released db mid = db"
    using released_missing by blast
  have kept: "\<forall>m. db_get_minion_machine db mid = Some m \<longrightarrow>
             db_get_minion_machine (released db mid) mid =
               Some (m\<lparr>machine_status := MINION_MACHINE_STATUS_AVAILABLE,
                       allocated_action := None\<rparr>)"
    using released_get [of db mid] by (simp add: available_values_def)
  note rows = released_rows [of db mid]
  show ?thesis
    unfolding e fst_conv snd_conv
    by (intro conjI refl shape e2 rows miss kept)
qed

theorem C7_deallocate_minion_machine_idempotent_witness:
  "db_faults store_m012 (DB_update_minion_machine ''m2'') = None
   \<and> machine_m2 \<in> set (db_machines store_m012)
   \<and> machine_status machine_m2 = MINION_MACHINE_STATUS_IN_USE
   \<and> allocated_action machine_m2 = Some ''a0''
   \<and> fst (deallocate_minion_machine store_m012 ''m2'') = Inr ()
   \<and> db_machines (snd (deallocate_minion_machine store_m012 ''m2'')) =
       [machine_m0, machine_m1,
        machine_m2\<lparr>machine_status := MINION_MACHINE_STATUS_AVAILABLE,
                    allocated_action := None\<rparr>]
   \<and> deallocate_minion_machine (snd (deallocate_minion_machine store_m012 ''m2'')) ''m2''
       = (Inr (), snd (deallocate_minion_machine store_m012 ''m2''))"
proof -
  have h: "db_faults store_m012 (DB_update_minion_machine ''m2'') = None"
    by (simp add: store_m012_def no_faults_def)
  have m: "machine_m2 \<in> set (db_machines store_m012)"
          "machine_status machine_m2 = MINION_MACHINE_STATUS_IN_USE"
          "allocated_action machine_m2 = Some ''a0''"
    by (simp_all add: store_m012_def machine_m2_def)
  note t = C7_deallocate_minion_machine_idempotent [OF h]
  from t have s: "snd (deallocate_minion_machine store_m012 ''m2'') =
           store_m012\<lparr>db_machines :=
                map (\<lambda>m. if machine_id m = ''m2''
                          then m\<lparr>machine_status := MINION_MACHINE_STATUS_AVAILABLE,
                                 allocated_action := None\<rparr>
                          else m)
                  (db_machines store_m012)\<rparr>"
    by blast
  have rows: "db_machines (snd (deallocate_minion_machine store_m012 ''m2'')) =
       [machine_m0, machine_m1,
        machine_m2\<lparr>machine_status := MINION_MACHINE_STATUS_AVAILABLE,
                    allocated_action := None\<rparr>]"
    unfolding s
    by (simp add: store_m012_def machine_m0_def machine_m1_def machine_m2_def)
  from t have a: "fst (deallocate_minion_machine store_m012 ''m2'') = Inr ()"
    and b: "deallocate_minion_machine (snd (deallocate_minion_machine store_m012 ''m2'')) ''m2''
       = (Inr (), snd (deallocate_minion_machine store_m012 ''m2''))"
    by blast+
  from h m a rows b show ?thesis
    by (intro conjI)
qed

section \<open>Properties of the pool allocation flow\<close>

lemma allocate_tasks_count:
  "length (filter is_allocate_machine_task
     (concat (map flow_tasks
        (map (\<lambda>machine_id. Task (AllocateMinionMachineTask pid machine_id pl a r)) ids))))
   = length ids"
  by (induction ids) simp_all

lemma allocation_flow_shape:
  "get_minion_pool_allocation_flow uuid4 pool =
     LinearFlow (MINION_POOL_ALLOCATION_FLOW_NAME_FORMAT (pool_id pool))
       ([Task (UpdateMinionPoolStatusTask (pool_id pool)
                 MINION_POOL_STATUS_VALIDATING_INPUTS (Some MINION_POOL_STATUS_ERROR)),
         Task (ValidateMinionPoolOptionsTask (pool_id pool) (pool_id pool)
                 (pool_platform pool)),
         Task (UpdateMinionPoolStatusTask (pool_id pool)
                 MINION_POOL_STATUS_ALLOCATING_SHARED_RESOURCES None),
         Task (AllocateSharedPoolResourcesTask (pool_id pool) (pool_id pool)
                 (pool_platform pool))]
        @ (if 0 < minimum_minions pool
           then [Task (UpdateMinionPoolStatusTask (pool_id pool)
                         MINION_POOL_STATUS_ALLOCATING_MACHINES None),
                 UnorderedFlow
                   (MINION_POOL_ALLOCATE_MINIONS_SUBFLOW_NAME_FORMAT (pool_id pool))
                   (map (\<lambda>k. Task (AllocateMinionMachineTask (pool_id pool) (uuid4 k)
                                     (pool_platform pool) None None))
                      [0..<nat (minimum_minions pool)])]
           else [])
        @ [Task (UpdateMinionPoolStatusTask (pool_id pool)
                   MINION_POOL_STATUS_ALLOCATED None)])"
  by (simp add: get_minion_pool_allocation_flow_def Let_def comp_def)

text \<open>
  C8. The allocation flow of a pool is the linear flow of the four validation and shared
  resource tasks, followed, when \<^verbatim>\<open>minimum_minions\<close> is positive, by the transition to
  \<^verbatim>\<open>ALLOCATING_MACHINES\<close> and an unordered flow of one \<^verbatim>\<open>AllocateMinionMachineTask\<close>
  per minimum minion, the k-th with the k-th uuid drawn, and closed by the transition to
  \<^verbatim>\<open>ALLOCATED\<close>. It holds exactly \<^verbatim>\<open>minimum_minions\<close> allocation tasks (none for 0),
  and the transition to \<^verbatim>\<open>ALLOCATING_MACHINES\<close> is in it exactly when
  \<^verbatim>\<open>minimum_minions\<close> is positive.
\<close>

theorem C8_allocation_flow:
  "get_minion_pool_allocation_flow uuid4 pool =
     LinearFlow (MINION_POOL_ALLOCATION_FLOW_NAME_FORMAT (pool_id pool))
       ([Task (UpdateMinionPoolStatusTask (pool_id pool)
                 MINION_POOL_STATUS_VALIDATING_INPUTS (Some MINION_POOL_STATUS_ERROR)),
         Task (ValidateMinionPoolOptionsTask (pool_id pool) (pool_id pool)
                 (pool_platform pool)),
         Task (UpdateMinionPoolStatusTask (pool_id pool)
                 MINION_POOL_STATUS_ALLOCATING_SHARED_RESOURCES None),
         Task (AllocateSharedPoolResourcesTask (pool_id pool) (pool_id pool)
                 (pool_platform pool))]
        @ (if 0 < minimum_minions pool
           then [Task (UpdateMinionPoolStatusTask (pool_id pool)
                         MINION_POOL_STATUS_ALLOCATING_MACHINES None),
                 UnorderedFlow
                   (MINION_POOL_ALLOCATE_MINIONS_SUBFLOW_NAME_FORMAT (pool_id pool))
                   (map (\<lambda>k. Task (AllocateMinionMachineTask (pool_id pool) (uuid4 k)
                                     (pool_platform pool) None None))
                      [0..<nat (minimum_minions pool)])]
           else [])
        @ [Task (UpdateMinionPoolStatusTask (pool_id pool)
                   MINION_POOL_STATUS_ALLOCATED None)])
   \<and> length (filter is_allocate_machine_task
               (flow_tasks (get_minion_pool_allocation_flow uuid4 pool)))
       = nat (minimum_minions pool)
   \<and> (UpdateMinionPoolStatusTask (pool_id pool) MINION_POOL_STATUS_ALLOCATING_MACHINES None
         \<in> set (flow_tasks (get_minion_pool_allocation_flow uuid4 pool)))
       = (0 < minimum_minions pool)"
proof (intro conjI)
  show "length (filter is_allocate_machine_task
               (flow_tasks (get_minion_pool_allocation_flow uuid4 pool)))
       = nat (minimum_minions pool)"
    using allocate_tasks_count [of "pool_id pool" "pool_platform pool" None None
                                   "map uuid4 [0..<nat (minimum_minions pool)]"]
    by (simp add: get_minion_pool_allocation_flow_def Let_def)
  show "(UpdateMinionPoolStatusTask (pool_id pool) MINION_POOL_STATUS_ALLOCATING_MACHINES None
         \<in> set (flow_tasks (get_minion_pool_allocation_flow uuid4 pool)))
       = (0 < minimum_minions pool)"
  proof (cases "0 < minimum_minions pool")
    case True
    then show ?thesis
      unfolding allocation_flow_shape by simp
  next
    case False
    then show ?thesis
      unfolding allocation_flow_shape by simp
  qed
qed (rule allocation_flow_shape)

section \<open>Properties of the pool refresh flow\<close>





lemma refresh_step_selected_available:
  "refresh_step now pool m plan = Inr plan' \<Longrightarrow>
   machine_status m = MINION_MACHINE_STATUS_AVAILABLE \<Longrightarrow>
   set (machines_to_deallocate plan') \<union> set (machines_to_healthcheck plan')
     \<subseteq> set (machines_to_deallocate plan) \<union> set (machines_to_healthcheck plan)
        \<union> {machine_id m}"
  by (auto simp: refresh_step_def split: if_splits sum.splits)

lemma refresh_step_selected_skipped:
  "refresh_step now pool m plan = Inr plan' \<Longrightarrow>
   machine_status m \<noteq> MINION_MACHINE_STATUS_AVAILABLE \<Longrightarrow>
   set (machines_to_deallocate plan') \<union> set (machines_to_healthcheck plan')
     \<subseteq> set (machines_to_deallocate plan) \<union> set (machines_to_healthcheck plan) \<union> {}"
  by (auto simp: refresh_step_def split: if_splits sum.splits)




lemma refresh_loop_selected_available:
  "refresh_loop now pool ms plan = Inr plan' \<Longrightarrow>
   set (machines_to_deallocate plan') \<union> set (machines_to_healthcheck plan')
     \<subseteq> set (machines_to_deallocate plan) \<union> set (machines_to_healthcheck plan)
        \<union> set (map machine_id
                 (filter (\<lambda>m. machine_status m = MINION_MACHINE_STATUS_AVAILABLE) ms))"
proof (induction ms arbitrary: plan)
  case Nil
  then show ?case by simp
next
  case (Cons m ms)
  let ?A = "set (map machine_id
                 (filter (\<lambda>m. machine_status m = MINION_MACHINE_STATUS_AVAILABLE) ms))"
  from Cons.prems obtain p where s: "refresh_step now pool m plan = Inr p"
    and l: "refresh_loop now pool ms p = Inr plan'"
    by (auto split: sum.splits)
  have a: "set (machines_to_deallocate plan') \<union> set (machines_to_healthcheck plan')
     \<subseteq> set (machines_to_deallocate p) \<union> set (machines_to_healthcheck p) \<union> ?A"
    by (rule Cons.IH [OF l])
  show ?case
  proof (cases "machine_status m = MINION_MACHINE_STATUS_AVAILABLE")
    case True
    then have c: "set (map machine_id
                 (filter (\<lambda>m. machine_status m = MINION_MACHINE_STATUS_AVAILABLE) (m # ms)))
               = insert (machine_id m) ?A"
      by simp
    note b' = refresh_step_selected_available [OF s True]
    show ?thesis
      unfolding c using a b' by blast
  next
    case False
    then have c: "set (map machine_id
                 (filter (\<lambda>m. machine_status m = MINION_MACHINE_STATUS_AVAILABLE) (m # ms)))
               = ?A"
      by simp
    note b' = refresh_step_selected_skipped [OF s False]
    show ?thesis
      unfolding c using a b' by blast
  qed
qed





text \<open>
  An exception of the loop leaves the store untouched; the loop completes when the idle time
  is a valid \<^verbatim>\<open>timedelta\<close> and every expiry time is a \<^verbatim>\<open>datetime\<close>.
\<close>

lemma refresh_flow_raises:
  assumes "(if requery then get_minion_pool db (pool_id minion_pool) True
            else Inr minion_pool) = Inr pool"
      and "refresh_loop now pool (minion_machines pool) (initial_refresh_plan pool) = Inl e"
  shows "get_minion_pool_refresh_flow now db minion_pool requery = (Inl e, db)"
  unfolding get_minion_pool_refresh_flow_def assms(1) sum.case assms(2) by simp

lemma refresh_step_returns:
  assumes "timedelta_seconds (minion_max_idle_time pool) = Inr delta"
      and "case last_used_at m of None \<Rightarrow> True
           | Some used \<Rightarrow> 0 \<le> used + delta \<and> used + delta < datetime_range"
  shows "\<exists>plan'. refresh_step now pool m plan = Inr plan'"
proof (cases "last_used_at m")
  case None
  then show ?thesis
    by (simp add: refresh_step_def minion_expired_def)
next
  case (Some used)
  with assms(2) have "datetime_add used delta = Inr (used + delta)"
    by (simp add: datetime_add_def)
  with Some assms(1) show ?thesis
    by (simp add: refresh_step_def minion_expired_def)
qed

lemma refresh_loop_returns:
  assumes "timedelta_seconds (minion_max_idle_time pool) = Inr delta"
      and "list_all (\<lambda>m. case last_used_at m of None \<Rightarrow> True
                          | Some used \<Rightarrow> 0 \<le> used + delta \<and> used + delta < datetime_range)
             ms"
  shows "\<exists>plan'. refresh_loop now pool ms plan = Inr plan'"
  using assms(2)
proof (induction ms arbitrary: plan)
  case Nil
  show ?case by simp
next
  case (Cons m ms)
  from Cons.prems have m: "case last_used_at m of None \<Rightarrow> True
           | Some used \<Rightarrow> 0 \<le> used + delta \<and> used + delta < datetime_range"
    and rest: "list_all (\<lambda>m. case last_used_at m of None \<Rightarrow> True
                          | Some used \<Rightarrow> 0 \<le> used + delta \<and> used + delta < datetime_range)
             ms"
    by simp_all
  obtain p where p: "refresh_step now pool m plan = Inr p"
    using refresh_step_returns [OF assms(1) m] by blast
  obtain plan' where "refresh_loop now pool ms p = Inr plan'"
    using Cons.IH [OF rest] by blast
  with p show ?case by simp
qed




lemma refresh_flow_overflow_example:
  "get_minion_pool_refresh_flow 1100 store_m012
     (pool_p1_m012\<lparr>minion_max_idle_time := 100000000000000\<rparr>) False
   = (Inl OverflowError, store_m012)"
  by (simp add: get_minion_pool_refresh_flow_def refresh_step_def minion_expired_def
        timedelta_seconds_def initial_refresh_plan_def pool_p1_m012_def pool_p1_def
        machine_m0_def machine_m1_def machine_m2_def)

section \<open>Properties of the rows written by reservation and release\<close>

lemma written_rows_iff:
  "written_rows P db db' = (\<forall>m \<in> set (db_machines db'). m \<in> set (db_machines db) \<or> P m)"
  by (simp add: written_rows_def list_all_iff)

lemma written_rows_refl: "written_rows P db db"
  by (simp add: written_rows_iff)

lemma written_rows_trans:
  "written_rows P a b \<Longrightarrow> written_rows P b c \<Longrightarrow> written_rows P a c"
  unfolding written_rows_iff by blast

lemma written_rows_map:
  assumes "db_machines db' = map (\<lambda>m. if c m then g m else m) (db_machines db)"
      and "\<And>m. P (g m)"
  shows "written_rows P db db'"
  unfolding written_rows_iff assms(1) using assms(2) by auto

lemma written_rows_filter:
  assumes "db_machines db' = filter c (db_machines db)"
  shows "written_rows P db db'"
  unfolding written_rows_iff assms(1) by simp

lemma written_rows_append:
  assumes "db_machines db' = db_machines db @ [new]" and "P new"
  shows "written_rows P db db'"
  unfolding written_rows_iff assms(1) using assms(2) by auto

lemma written_set_allocation_statuses:
  assumes "db_set_minion_machines_allocation_statuses now ids a st r db = Inr db'"
      and "\<And>m. P (m\<lparr>allocated_action := a,
                      last_used_at := (if r then Some now else last_used_at m),
                      machine_status := st\<rparr>)"
    shows "written_rows P db db'"
proof -
  have "db_machines db' =
          map (\<lambda>m. if machine_id m \<in> set ids
                    then m\<lparr>allocated_action := a,
                           last_used_at := (if r then Some now else last_used_at m),
                           machine_status := st\<rparr>
                    else m) (db_machines db)"
    using assms(1)
    by (auto simp: db_set_minion_machines_allocation_statuses_def
             split: option.splits if_splits)
  then show ?thesis
    using assms(2) by (rule written_rows_map)
qed

lemma written_delete:
  assumes "db_delete_minion_machine mid db = Inr db'"
  shows "written_rows P db db'"
proof -
  have "db_machines db' = filter (\<lambda>m. machine_id m \<noteq> mid) (db_machines db)"
    using assms by (auto simp: db_delete_minion_machine_def split: option.splits)
  then show ?thesis by (rule written_rows_filter)
qed

lemma written_add:
  assumes "db_add_minion_machine new db = Inr db'" and "P new"
  shows "written_rows P db db'"
proof -
  have "db_machines db' = db_machines db @ [new]"
    using assms(1) by (auto simp: db_add_minion_machine_def split: option.splits)
  then show ?thesis using assms(2) by (rule written_rows_append)
qed

lemma written_update:
  assumes "db_update_minion_machine mid g db = Inr db'" and "\<And>m. P (g m)"
  shows "written_rows P db db'"
proof -
  have "db_machines db' = map (\<lambda>m. if machine_id m = mid then g m else m) (db_machines db)"
    using assms(1) by (auto simp: db_update_minion_machine_def split: option.splits)
  then show ?thesis using assms(2) by (rule written_rows_map)
qed

lemma written_add_new_machines:
  assumes "\<forall>m \<in> set new. P m"
  shows "written_rows P db (snd (snd (add_new_machines new added db)))"
  using assms
proof (induction new arbitrary: added db)
  case Nil
  show ?case by (simp add: written_rows_refl)
next
  case (Cons m new)
  show ?case
  proof (cases "db_add_minion_machine m db")
    case (Inl e)
    then show ?thesis by (simp add: written_rows_refl)
  next
    case (Inr db')
    have a: "written_rows P db db'"
      using Inr Cons.prems by (intro written_add [of m db db' P]) simp_all
    have b: "written_rows P db' (snd (snd (add_new_machines new (added @ [machine_id m]) db')))"
      using Cons.prems by (intro Cons.IH) simp
    show ?thesis
      using written_rows_trans [OF a b] Inr by simp
  qed
qed

lemma written_delete_added_machines:
  "written_rows P db (snd (delete_added_machines added db))"
proof (induction added arbitrary: db)
  case Nil
  show ?case by (simp add: written_rows_refl)
next
  case (Cons new_machine rest)
  show ?case
    by (simp add: str_attr_id_def written_rows_refl)
qed

lemma written_allocation_error_handler:
  assumes "\<And>m. P (m\<lparr>allocated_action := None, last_used_at := last_used_at m,
                      machine_status := MINION_MACHINE_STATUS_AVAILABLE\<rparr>)"
  shows "written_rows P db (snd (allocation_error_handler now ex existing added db))"
proof (cases "log_added_ids added")
  case (Inl e)
  then show ?thesis
    by (simp add: allocation_error_handler_def written_rows_refl)
next
  case (Inr logged)
  let ?r = "db_set_minion_machines_allocation_statuses now (dict_keys existing) None
              MINION_MACHINE_STATUS_AVAILABLE False db"
  let ?db1 = "case ?r of Inl e \<Rightarrow> db | Inr db' \<Rightarrow> db'"
  have a: "written_rows P db ?db1"
  proof (cases ?r)
    case (Inl e)
    then show ?thesis by (simp add: written_rows_refl)
  next
    case (Inr db')
    have "written_rows P db db'"
      using Inr assms by (intro written_set_allocation_statuses [of now _ None _ False db db' P]) simp_all
    then show ?thesis using Inr by simp
  qed
  have b: "written_rows P ?db1 (snd (delete_added_machines added ?db1))"
    by (rule written_delete_added_machines)
  have "snd (allocation_error_handler now ex existing added db)
          = snd (delete_added_machines added ?db1)"
    using Inr by (simp add: allocation_error_handler_def Let_def split: prod.splits option.splits)
  then show ?thesis
    using written_rows_trans [OF a b] by simp
qed

lemma plan_allocations_entries:
  "plan_allocations uuid4 pool aid insts plan = Inr plan' \<Longrightarrow>
   list_all (\<lambda>m. machine_status m = MINION_MACHINE_STATUS_UNINITIALIZED
                   \<and> allocated_action m = Some aid) (machine_db_entries_to_add plan) \<Longrightarrow>
   list_all (\<lambda>m. machine_status m = MINION_MACHINE_STATUS_UNINITIALIZED
                   \<and> allocated_action m = Some aid) (machine_db_entries_to_add plan')"
proof (induction uuid4 pool aid insts plan rule: plan_allocations.induct)
  case (1 uuid4 pool action_id plan)
  then show ?case by simp
next
  case (2 uuid4 pool action_id inst rest plan)
  show ?case
  proof (cases "inst \<in> set (dict_keys (instance_minion_allocations plan))")
    case True
    then show ?thesis using "2.prems"(1) by simp
  next
    case False
    show ?thesis
    proof (cases "select_machine (minion_machines pool)
                    (dict_values (instance_minion_allocations plan))")
      case None
      show ?thesis
        apply (rule "2.IH"(1) [OF False None refl refl])
        using "2.prems" False None apply (simp add: Let_def)
        using "2.prems"(2) apply simp
        done
    next
      case (Some minion_machine)
      show ?thesis
        apply (rule "2.IH"(2) [OF False Some])
        using "2.prems" False Some apply simp
        using "2.prems"(2) apply simp
        done
    qed
  qed
qed

lemma written_handler_reserved:
  "written_rows (reserved_row aid) db
     (snd (allocation_error_handler now ex existing added db))"
  by (rule written_allocation_error_handler) (simp add: reserved_row_def)

lemma written_reservation:
  "written_rows (reserved_row aid) db
     (snd (make_minion_machine_allocation_subflow_for_action uuid4 now db pool aid
             insts subflow_name))"
proof (cases "int (length insts) >
                int (length (filter (\<lambda>machine. machine_status machine =
                                         MINION_MACHINE_STATUS_AVAILABLE)
                               (minion_machines pool)))
                + (maximum_minions pool - int (length (minion_machines pool)))")
  case True
  then show ?thesis
    by (simp add: make_minion_machine_allocation_subflow_for_action_def Let_def
          written_rows_refl)
next
  case size_ok: False
  show ?thesis
  proof (cases "plan_allocations uuid4 pool aid insts empty_allocation_plan")
    case (Inl e)
    with size_ok show ?thesis
      by (simp add: make_minion_machine_allocation_subflow_for_action_def Let_def
            written_rows_refl)
  next
    case (Inr plan)
    have entries: "list_all (\<lambda>m. machine_status m = MINION_MACHINE_STATUS_UNINITIALIZED
                                \<and> allocated_action m = Some aid)
                     (machine_db_entries_to_add plan)"
      by (rule plan_allocations_entries [OF Inr]) (simp add: empty_allocation_plan_def)
    then have new_ok: "\<forall>m \<in> set (machine_db_entries_to_add plan). reserved_row aid m"
      by (simp add: list_all_iff reserved_row_def)
    show ?thesis
    proof (cases "db_set_minion_machines_allocation_statuses now
                    (dict_keys (existing_machines_to_allocate plan)) (Some aid)
                    MINION_MACHINE_STATUS_IN_USE True db")
      case set_failed: (Inl ex)
      have "snd (make_minion_machine_allocation_subflow_for_action uuid4 now db pool aid
                   insts subflow_name)
              = snd (allocation_error_handler now ex (existing_machines_to_allocate plan) [] db)"
        using size_ok Inr set_failed
        by (simp add: make_minion_machine_allocation_subflow_for_action_def Let_def
              split: prod.splits)
      then show ?thesis
        using written_handler_reserved [of aid db now ex "existing_machines_to_allocate plan" "[]"]
        by simp
    next
      case set_ok: (Inr db1)
      have a: "written_rows (reserved_row aid) db db1"
        using set_ok
        by (rule written_set_allocation_statuses) (simp add: reserved_row_def)
      obtain r added db2
        where adds: "add_new_machines (machine_db_entries_to_add plan) [] db1 = (r, added, db2)"
        by (cases "add_new_machines (machine_db_entries_to_add plan) [] db1") auto
      have b: "written_rows (reserved_row aid) db1 db2"
        using written_add_new_machines [OF new_ok, of db1 "[]"] adds by simp
      show ?thesis
      proof (cases r)
        case None
        have "snd (make_minion_machine_allocation_subflow_for_action uuid4 now db pool aid
                     insts subflow_name) = db2"
          using size_ok Inr set_ok adds None
          by (simp add: make_minion_machine_allocation_subflow_for_action_def Let_def)
        then show ?thesis
          using written_rows_trans [OF a b] by simp
      next
        case (Some ex)
        have "snd (make_minion_machine_allocation_subflow_for_action uuid4 now db pool aid
                     insts subflow_name)
                = snd (allocation_error_handler now ex (existing_machines_to_allocate plan)
                         added db2)"
          using size_ok Inr set_ok adds Some
          by (simp add: make_minion_machine_allocation_subflow_for_action_def Let_def
                split: prod.splits)
        then show ?thesis
          using written_rows_trans [OF written_rows_trans [OF a b]
                  written_handler_reserved [of aid db2 now ex
                     "existing_machines_to_allocate plan" added]]
          by simp
      qed
    qed
  qed
qed

lemma written_deallocate_minion_machine:
  "written_rows released_row db (snd (deallocate_minion_machine db mid))"
proof (cases "db_get_minion_machine db mid")
  case None
  then show ?thesis
    by (simp add: deallocate_minion_machine_def written_rows_refl)
next
  case (Some m)
  show ?thesis
  proof (cases "db_update_minion_machine (machine_id m) available_values db")
    case (Inl e)
    with Some show ?thesis
      by (simp add: deallocate_minion_machine_def written_rows_refl)
  next
    case (Inr db')
    have "written_rows released_row db db'"
      using Inr by (rule written_update) (simp add: released_row_def available_values_def)
    with Some Inr show ?thesis
      by (simp add: deallocate_minion_machine_def)
  qed
qed

lemma written_sweep_pool_machines:
  "written_rows P db (snd (sweep_pool_machines machines ids db))"
proof (induction machines arbitrary: ids db)
  case Nil
  show ?case by (simp add: written_rows_refl)
next
  case (Cons m machines)
  show ?case
  proof (cases "machine_status m = MINION_MACHINE_STATUS_UNINITIALIZED")
    case False
    then show ?thesis using Cons.IH [of db "ids @ [machine_id m]"] by simp
  next
    case True
    show ?thesis
    proof (cases "db_delete_minion_machine (machine_id m) db")
      case (Inl e)
      with True show ?thesis by (simp add: written_rows_refl)
    next
      case (Inr db')
      have a: "written_rows P db db'"
        using Inr by (rule written_delete)
      show ?thesis
        using True Inr written_rows_trans [OF a Cons.IH [of db' ids]] by simp
    qed
  qed
qed

lemma written_sweep_pools:
  "written_rows released_row db (snd (sweep_pools now mappings db))"
proof (induction mappings arbitrary: db)
  case Nil
  show ?case by (simp add: written_rows_refl)
next
  case (Cons pm rest)
  obtain pid pool_machines where pm: "pm = (pid, pool_machines)"
    by (cases pm) auto
  obtain r db' where sw: "sweep_pool_machines pool_machines [] db = (r, db')"
    by (cases "sweep_pool_machines pool_machines [] db") auto
  have a: "written_rows released_row db db'"
    using written_sweep_pool_machines [of released_row db pool_machines "[]"] sw by simp
  show ?case
  proof (cases r)
    case (Inl e)
    with pm sw a show ?thesis by simp
  next
    case (Inr ids)
    show ?thesis
    proof (cases "db_set_minion_machines_allocation_statuses now ids None
                    MINION_MACHINE_STATUS_AVAILABLE False db'")
      case failed: (Inl e)
      with pm sw Inr a show ?thesis by simp
    next
      case ok: (Inr db'')
      have b: "written_rows released_row db' db''"
        using ok by (rule written_set_allocation_statuses) (simp add: released_row_def)
      show ?thesis
        using pm sw Inr ok
          written_rows_trans [OF written_rows_trans [OF a b] Cons.IH [of db'']]
        by simp
    qed
  qed
qed

lemma written_deallocate_minion_machines_for_action:
  "written_rows released_row db (snd (deallocate_minion_machines_for_action now db aid))"
  by (simp add: deallocate_minion_machines_for_action_def Let_def written_rows_refl
        written_sweep_pools)

lemmas eval_defs =
  make_minion_machine_allocation_subflow_for_action_def Let_def empty_allocation_plan_def
  dict_keys_def dict_values_def db_set_minion_machines_allocation_statuses_def
  db_add_minion_machine_def db_delete_minion_machine_def allocation_error_handler_def
  str_attr_id_def get_healtchcheck_flow_for_minion_machine_def
  pool_p1_def store_empty_def store_m0_def machine_m0_def machine_n1_def no_faults_def
  uuid4_n_def

lemma reservation_n1:
  "make_minion_machine_allocation_subflow_for_action uuid4_n 1100 store_empty pool_p1
      ''a1'' [''vm1''] (FlowName ''f'')
   = (Inr (UnorderedFlow (FlowName ''f'')
             [Task (AllocateMinionMachineTask ''p1'' ''n1'' ''destination'' (Some ''a1'')
                      (Some False))],
           [(''vm1'', ''n1'')]),
      store_empty\<lparr>db_machines := [machine_n1]\<rparr>)"
  by (simp add: eval_defs)

text \<open>
  C1 as stated fails: the reservation of one instance from a pool without machines inserts a
  row that is \<^verbatim>\<open>UNINITIALIZED\<close>, not \<^verbatim>\<open>IN_USE\<close>, and carries the action id.
\<close>

theorem C1_counterexample:
  "machine_n1 \<in> set (db_machines (snd (make_minion_machine_allocation_subflow_for_action
        uuid4_n 1100 store_empty pool_p1 ''a1'' [''vm1''] (FlowName ''f''))))
   \<and> machine_status machine_n1 \<noteq> MINION_MACHINE_STATUS_IN_USE
   \<and> allocated_action machine_n1 \<noteq> None"
  by (simp add: reservation_n1) (simp add: machine_n1_def)

lemma restatused_refl: "restatused S m m"
  by (simp add: restatused_def)

lemma restatused_id: "restatused S m m' \<Longrightarrow> machine_id m' = machine_id m"
  by (auto simp: restatused_def)

lemma restatused_trans:
  "restatused S a b \<Longrightarrow> restatused S b c \<Longrightarrow> restatused S a c"
  unfolding restatused_def by (elim disjE conjE) simp_all

lemma list_all2_restatused_refl: "list_all2 (restatused S) ms ms"
  by (simp add: list_all2_same restatused_refl)

lemma list_all2_restatused_trans:
  "list_all2 (restatused S) as bs \<Longrightarrow> list_all2 (restatused S) bs cs \<Longrightarrow>
   list_all2 (restatused S) as cs"
  by (rule list_all2_trans [of "restatused S" "restatused S" "restatused S"])
     (rule restatused_trans)

lemma restatused_set_one:
  assumes "db_set_minion_machine_status mid st db = Inr db'"
      and "mid \<in> S"
      and "st = MINION_MACHINE_STATUS_DEALLOCATING \<or> st = MINION_MACHINE_STATUS_HEALTHCHECKING"
  shows "list_all2 (restatused S) (db_machines db) (db_machines db')"
proof -
  have "db_machines db' =
          map (\<lambda>m. if machine_id m = mid then m\<lparr>machine_status := st\<rparr> else m)
            (db_machines db)"
    using assms(1) by (auto simp: db_set_minion_machine_status_def split: option.splits)
  moreover have "\<forall>m \<in> set (db_machines db).
          restatused S m (if machine_id m = mid then m\<lparr>machine_status := st\<rparr> else m)"
    using assms(2,3) by (auto simp: restatused_def)
  ultimately show ?thesis
    by (simp add: list_all2_map2 list_all2_same)
qed

lemma restatused_set_statuses:
  assumes "set ids \<subseteq> S"
      and "st = MINION_MACHINE_STATUS_DEALLOCATING \<or> st = MINION_MACHINE_STATUS_HEALTHCHECKING"
  shows "list_all2 (restatused S) (db_machines db)
           (db_machines (snd (set_minion_machine_statuses ids st db)))"
  using assms(1)
proof (induction ids arbitrary: db)
  case Nil
  show ?case by (simp add: list_all2_restatused_refl)
next
  case (Cons mid ids)
  show ?case
  proof (cases "db_set_minion_machine_status mid st db")
    case (Inl e)
    then show ?thesis by (simp add: list_all2_restatused_refl)
  next
    case (Inr db')
    have a: "list_all2 (restatused S) (db_machines db) (db_machines db')"
      using Inr Cons.prems assms(2) by (intro restatused_set_one [of mid st db db' S]) simp_all
    have b: "list_all2 (restatused S) (db_machines db')
               (db_machines (snd (set_minion_machine_statuses ids st db')))"
      using Cons.prems by (intro Cons.IH) simp
    show ?thesis
      using list_all2_restatused_trans [OF a b] Inr by simp
  qed
qed

lemma refresh_restatused:
  assumes "(if requery then get_minion_pool db (pool_id minion_pool) True
            else Inr minion_pool) = Inr pool"
  shows "list_all2
           (restatused (set (map machine_id
              (filter (\<lambda>m. machine_status m = MINION_MACHINE_STATUS_AVAILABLE)
                 (minion_machines pool)))))
           (db_machines db)
           (db_machines (snd (get_minion_pool_refresh_flow now db minion_pool requery)))"
proof (cases "refresh_loop now pool (minion_machines pool) (initial_refresh_plan pool)")
  case (Inl e)
  then show ?thesis
    by (simp add: refresh_flow_raises [OF assms] list_all2_restatused_refl)
next
  case (Inr plan)
  let ?S = "set (map machine_id
              (filter (\<lambda>m. machine_status m = MINION_MACHINE_STATUS_AVAILABLE)
                 (minion_machines pool)))"
  have sel: "set (machines_to_deallocate plan) \<union> set (machines_to_healthcheck plan) \<subseteq> ?S"
    using refresh_loop_selected_available [OF Inr]
    by (simp add: initial_refresh_plan_def)
  obtain r1 db1 where s1: "set_minion_machine_statuses (machines_to_deallocate plan)
                             MINION_MACHINE_STATUS_DEALLOCATING db = (r1, db1)"
    by (cases "set_minion_machine_statuses (machines_to_deallocate plan)
                 MINION_MACHINE_STATUS_DEALLOCATING db") auto
  obtain r2 db2 where s2: "set_minion_machine_statuses (machines_to_healthcheck plan)
                             MINION_MACHINE_STATUS_HEALTHCHECKING db1 = (r2, db2)"
    by (cases "set_minion_machine_statuses (machines_to_healthcheck plan)
                 MINION_MACHINE_STATUS_HEALTHCHECKING db1") auto
  have a: "list_all2 (restatused ?S) (db_machines db) (db_machines db1)"
    using restatused_set_statuses [of "machines_to_deallocate plan" ?S
            MINION_MACHINE_STATUS_DEALLOCATING db] sel s1 by simp
  have b: "list_all2 (restatused ?S) (db_machines db1) (db_machines db2)"
    using restatused_set_statuses [of "machines_to_healthcheck plan" ?S
            MINION_MACHINE_STATUS_HEALTHCHECKING db1] sel s2 by simp
  have "snd (get_minion_pool_refresh_flow now db minion_pool requery) = db1
        \<or> snd (get_minion_pool_refresh_flow now db minion_pool requery) = db2"
    unfolding get_minion_pool_refresh_flow_def assms sum.case Inr s1 prod.case
    by (cases r1; cases r2) (simp_all add: s2)
  then show ?thesis
    using a list_all2_restatused_trans [OF a b] by auto
qed

lemma refresh_restatused_any:
  "list_all2 (restatused UNIV) (db_machines db)
     (db_machines (snd (get_minion_pool_refresh_flow now db minion_pool requery)))"
proof (cases "if requery then get_minion_pool db (pool_id minion_pool) True
              else Inr minion_pool")
  case (Inl e)
  then show ?thesis
    by (simp add: get_minion_pool_refresh_flow_def list_all2_restatused_refl)
next
  case (Inr pool)
  show ?thesis
    by (rule list_all2_mono [OF refresh_restatused [OF Inr]]) (auto simp: restatused_def)
qed

lemma list_all2_set2:
  "list_all2 P xs ys \<Longrightarrow> y \<in> set ys \<Longrightarrow> \<exists>x \<in> set xs. P x y"
  by (induction rule: list_all2_induct) auto

lemma distinct_ids_eq:
  "distinct (map machine_id ms) \<Longrightarrow> a \<in> set ms \<Longrightarrow> b \<in> set ms \<Longrightarrow>
   machine_id a = machine_id b \<Longrightarrow> a = b"
  by (meson distinct_map inj_on_eq_iff)

lemma refresh_rows_keep_no_action:
  assumes p: "(if requery then get_minion_pool db (pool_id minion_pool) True
               else Inr minion_pool) = Inr pool"
      and sub: "set (minion_machines pool) \<subseteq> set (db_machines db)"
      and d: "distinct (map machine_id (db_machines db))"
      and inv: "\<forall>m \<in> set (db_machines db).
                  machine_status m = MINION_MACHINE_STATUS_AVAILABLE \<longrightarrow>
                  allocated_action m = None"
      and m': "m' \<in> set (db_machines
                           (snd (get_minion_pool_refresh_flow now db minion_pool requery)))"
  shows "m' \<in> set (db_machines db)
         \<or> (allocated_action m' = None
            \<and> (machine_status m' = MINION_MACHINE_STATUS_DEALLOCATING
                \<or> machine_status m' = MINION_MACHINE_STATUS_HEALTHCHECKING))"
proof -
  let ?S = "set (map machine_id
              (filter (\<lambda>m. machine_status m = MINION_MACHINE_STATUS_AVAILABLE)
                 (minion_machines pool)))"
  obtain m where m: "m \<in> set (db_machines db)" and r: "restatused ?S m m'"
    using list_all2_set2 [OF refresh_restatused [OF p] m'] by blast
  show ?thesis
  proof (cases "m' = m")
    case True
    with m show ?thesis by simp
  next
    case False
    with r have in_S: "machine_id m \<in> ?S"
      and st: "m' = m\<lparr>machine_status := MINION_MACHINE_STATUS_DEALLOCATING\<rparr>
               \<or> m' = m\<lparr>machine_status := MINION_MACHINE_STATUS_HEALTHCHECKING\<rparr>"
      by (auto simp: restatused_def)
    from in_S obtain m0 where m0: "m0 \<in> set (minion_machines pool)"
      "machine_status m0 = MINION_MACHINE_STATUS_AVAILABLE" "machine_id m0 = machine_id m"
      by auto
    have "m0 = m"
      using distinct_ids_eq [OF d _ m m0(3)] m0(1) sub by blast
    with m0(2) inv m have "allocated_action m = None"
      by blast
    with st show ?thesis by auto
  qed
qed

lemma written_delete_machines:
  "written_rows P db (snd (delete_machines ms db))"
proof (induction ms arbitrary: db)
  case Nil
  show ?case by (simp add: written_rows_refl)
next
  case (Cons m ms)
  show ?case
  proof (cases "db_delete_minion_machine (machine_id m) db")
    case (Inl e)
    then show ?thesis by (simp add: written_rows_refl)
  next
    case (Inr db')
    have a: "written_rows P db db'"
      using Inr by (rule written_delete)
    show ?thesis
      using Inr written_rows_trans [OF a Cons.IH [of db']] by simp
  qed
qed

lemma written_cleanup_pools:
  "written_rows P db (snd (cleanup_pools mappings db))"
proof (induction mappings arbitrary: db)
  case Nil
  show ?case by (simp add: written_rows_refl)
next
  case (Cons pm rest)
  obtain pid ms where pm: "pm = (pid, ms)" by (cases pm) auto
  obtain r db' where dm: "delete_machines ms db = (r, db')"
    by (cases "delete_machines ms db") auto
  have a: "written_rows P db db'"
    using written_delete_machines [of P db ms] dm by simp
  show ?case
  proof (cases r)
    case None
    show ?thesis
      using pm dm None written_rows_trans [OF a Cons.IH [of db']] by simp
  next
    case (Some e)
    with pm dm a show ?thesis by simp
  qed
qed

lemma written_cleanup:
  "written_rows P db
     (snd (cleanup_machines_with_statuses_for_action db aid targeted exclude_pools))"
proof -
  let ?ex = "case exclude_pools of None \<Rightarrow> [] | Some pools \<Rightarrow> pools"
  let ?maps = "cleanup_categorise targeted ?ex (db_get_minion_machines db aid) []"
  obtain r db' where c: "cleanup_pools ?maps db = (r, db')"
    by (cases "cleanup_pools ?maps db") auto
  have "written_rows P db db'"
    using written_cleanup_pools [of P db ?maps] c by simp
  then show ?thesis
    using c
    by (cases r) (simp_all add: cleanup_machines_with_statuses_for_action_def Let_def
                    written_rows_refl)
qed

lemma refresh_m012_rows:
  "db_machines (snd (get_minion_pool_refresh_flow 1100 store_m012 pool_p1 True)) =
     [machine_m0\<lparr>machine_status := MINION_MACHINE_STATUS_DEALLOCATING\<rparr>,
      machine_m1\<lparr>machine_status := MINION_MACHINE_STATUS_HEALTHCHECKING\<rparr>,
      machine_m2]"
  by (simp add: get_minion_pool_refresh_flow_def get_minion_pool_def db_get_minion_pool_def
        refresh_step_def minion_expired_def timedelta_seconds_def datetime_add_def
        datetime_range_def initial_refresh_plan_def db_set_minion_machine_status_def
        store_m012_def pool_p1_def machine_m0_def machine_m1_def machine_m2_def
        no_faults_def)

text \<open>
  C1 (as the code has it), over the operations of the server that write machine rows. Every
  row that the reservation leaves in the store and that was not there before is
  \<^verbatim>\<open>IN_USE\<close> with the action id (a pre-existing machine), or \<^verbatim>\<open>UNINITIALIZED\<close> with
  the action id (a new row), or \<^verbatim>\<open>AVAILABLE\<close> with no action (a reverted machine); every
  row that \<^verbatim>\<open>deallocate_minion_machine\<close> or \<^verbatim>\<open>deallocate_minion_machines_for_action\<close>
  writes is \<^verbatim>\<open>AVAILABLE\<close> with no action; \<^verbatim>\<open>_cleanup_machines_with_statuses_for_action\<close>
  writes no row; the refresh flow builder changes nothing of a row but its status, to
  \<^verbatim>\<open>DEALLOCATING\<close> or \<^verbatim>\<open>HEALTHCHECKING\<close>, and when the machines of its pool are rows
  of the store, the ids of the store are distinct and the \<^verbatim>\<open>AVAILABLE\<close> rows have no
  action, every row it changes has no action. So on these rows \<^verbatim>\<open>IN_USE\<close> implies an
  allocated action, and an allocated action implies \<^verbatim>\<open>IN_USE\<close> or
  \<^verbatim>\<open>UNINITIALIZED\<close>.
\<close>

theorem C1_written_rows:
  "(\<forall>m \<in> set (db_machines (snd (make_minion_machine_allocation_subflow_for_action
                  uuid4 now db pool aid insts subflow_name))).
       m \<in> set (db_machines db) \<or> reserved_row aid m)
   \<and> (\<forall>m \<in> set (db_machines (snd (deallocate_minion_machine db mid))).
       m \<in> set (db_machines db) \<or> released_row m)
   \<and> (\<forall>m \<in> set (db_machines (snd (deallocate_minion_machines_for_action now db aid))).
       m \<in> set (db_machines db) \<or> released_row m)
   \<and> (\<forall>m \<in> set (db_machines (snd (cleanup_machines_with_statuses_for_action db aid
                                        targeted_statuses exclude_pools))).
       m \<in> set (db_machines db))
   \<and> list_all2
        (\<lambda>m m'. m' = m
                \<or> m' = m\<lparr>machine_status := MINION_MACHINE_STATUS_DEALLOCATING\<rparr>
                \<or> m' = m\<lparr>machine_status := MINION_MACHINE_STATUS_HEALTHCHECKING\<rparr>)
        (db_machines db)
        (db_machines (snd (get_minion_pool_refresh_flow now db minion_pool requery)))
   \<and> ((if requery then get_minion_pool db (pool_id minion_pool) True
         else Inr minion_pool) = Inr loaded_pool
       \<and> set (minion_machines loaded_pool) \<subseteq> set (db_machines db)
       \<and> distinct (map machine_id (db_machines db))
       \<and> (\<forall>m \<in> set (db_machines db).
             machine_status m = MINION_MACHINE_STATUS_AVAILABLE \<longrightarrow>
             allocated_action m = None)
      \<longrightarrow> (\<forall>m \<in> set (db_machines
                        (snd (get_minion_pool_refresh_flow now db minion_pool requery))).
             m \<in> set (db_machines db)
             \<or> (allocated_action m = None
                \<and> (machine_status m = MINION_MACHINE_STATUS_DEALLOCATING
                    \<or> machine_status m = MINION_MACHINE_STATUS_HEALTHCHECKING))))
   \<and> (\<forall>m. reserved_row aid m \<or> released_row m
            \<or> (allocated_action m = None
               \<and> (machine_status m = MINION_MACHINE_STATUS_DEALLOCATING
                   \<or> machine_status m = MINION_MACHINE_STATUS_HEALTHCHECKING)) \<longrightarrow>
         (machine_status m = MINION_MACHINE_STATUS_IN_USE \<longrightarrow> allocated_action m \<noteq> None)
         \<and> (allocated_action m \<noteq> None \<longrightarrow>
               machine_status m = MINION_MACHINE_STATUS_IN_USE
               \<or> machine_status m = MINION_MACHINE_STATUS_UNINITIALIZED))"
proof (intro conjI)
  show "\<forall>m \<in> set (db_machines (snd (make_minion_machine_allocation_subflow_for_action
                  uuid4 now db pool aid insts subflow_name))).
       m \<in> set (db_machines db) \<or> reserved_row aid m"
    using written_reservation [of aid db uuid4 now pool insts subflow_name]
    by (simp only: written_rows_iff)
  show "\<forall>m \<in> set (db_machines (snd (deallocate_minion_machine db mid))).
       m \<in> set (db_machines db) \<or> released_row m"
    using written_deallocate_minion_machine [of db mid]
    by (simp only: written_rows_iff)
  show "\<forall>m \<in> set (db_machines (snd (deallocate_minion_machines_for_action now db aid))).
       m \<in> set (db_machines db) \<or> released_row m"
    using written_deallocate_minion_machines_for_action [of db now aid]
    by (simp only: written_rows_iff)
  show "\<forall>m \<in> set (db_machines (snd (cleanup_machines_with_statuses_for_action db aid
                                        targeted_statuses exclude_pools))).
       m \<in> set (db_machines db)"
    using written_cleanup [of "\<lambda>m. False" db aid targeted_statuses exclude_pools]
    by (simp only: written_rows_iff) blast
  show "list_all2
        (\<lambda>m m'. m' = m
                \<or> m' = m\<lparr>machine_status := MINION_MACHINE_STATUS_DEALLOCATING\<rparr>
                \<or> m' = m\<lparr>machine_status := MINION_MACHINE_STATUS_HEALTHCHECKING\<rparr>)
        (db_machines db)
        (db_machines (snd (get_minion_pool_refresh_flow now db minion_pool requery)))"
    by (rule list_all2_mono [OF refresh_restatused_any]) (auto simp: restatused_def)
  show "(if requery then get_minion_pool db (pool_id minion_pool) True
         else Inr minion_pool) = Inr loaded_pool
       \<and> set (minion_machines loaded_pool) \<subseteq> set (db_machines db)
       \<and> distinct (map machine_id (db_machines db))
       \<and> (\<forall>m \<in> set (db_machines db).
             machine_status m = MINION_MACHINE_STATUS_AVAILABLE \<longrightarrow>
             allocated_action m = None)
      \<longrightarrow> (\<forall>m \<in> set (db_machines
                        (snd (get_minion_pool_refresh_flow now db minion_pool requery))).
             m \<in> set (db_machines db)
             \<or> (allocated_action m = None
                \<and> (machine_status m = MINION_MACHINE_STATUS_DEALLOCATING
                    \<or> machine_status m = MINION_MACHINE_STATUS_HEALTHCHECKING)))"
    using refresh_rows_keep_no_action [of requery db minion_pool loaded_pool _ now]
    by blast
  show "\<forall>m. reserved_row aid m \<or> released_row m
            \<or> (allocated_action m = None
               \<and> (machine_status m = MINION_MACHINE_STATUS_DEALLOCATING
                   \<or> machine_status m = MINION_MACHINE_STATUS_HEALTHCHECKING)) \<longrightarrow>
         (machine_status m = MINION_MACHINE_STATUS_IN_USE \<longrightarrow> allocated_action m \<noteq> None)
         \<and> (allocated_action m \<noteq> None \<longrightarrow>
               machine_status m = MINION_MACHINE_STATUS_IN_USE
               \<or> machine_status m = MINION_MACHINE_STATUS_UNINITIALIZED)"
    by (auto simp: reserved_row_def released_row_def)
qed

theorem C1_written_rows_witness:
  "machine_n1 \<in> set (db_machines (snd (make_minion_machine_allocation_subflow_for_action
        uuid4_n 1100 store_empty pool_p1 ''a1'' [''vm1''] (FlowName ''f''))))
   \<and> machine_n1 \<notin> set (db_machines store_empty)
   \<and> reserved_row ''a1'' machine_n1
   \<and> get_minion_pool store_m012 (pool_id pool_p1) True = Inr pool_p1_m012
   \<and> set (minion_machines pool_p1_m012) \<subseteq> set (db_machines store_m012)
   \<and> distinct (map machine_id (db_machines store_m012))
   \<and> machine_m0\<lparr>machine_status := MINION_MACHINE_STATUS_DEALLOCATING\<rparr>
       \<in> set (db_machines (snd (get_minion_pool_refresh_flow 1100 store_m012 pool_p1 True)))
   \<and> machine_m0\<lparr>machine_status := MINION_MACHINE_STATUS_DEALLOCATING\<rparr>
       \<notin> set (db_machines store_m012)
   \<and> allocated_action (machine_m0\<lparr>machine_status := MINION_MACHINE_STATUS_DEALLOCATING\<rparr>)
       = None"
proof -
  have a: "machine_n1 \<in> set (db_machines (snd (make_minion_machine_allocation_subflow_for_action
        uuid4_n 1100 store_empty pool_p1 ''a1'' [''vm1''] (FlowName ''f''))))"
    by (simp add: reservation_n1)
  have b: "machine_n1 \<notin> set (db_machines store_empty)"
    by (simp add: store_empty_def)
  have r: "reserved_row ''a1'' machine_n1"
    using a b
      C1_written_rows [of uuid4_n 1100 store_empty pool_p1 "''a1''" "[''vm1'']" "FlowName ''f''"]
    by blast
  have g: "get_minion_pool store_m012 (pool_id pool_p1) True = Inr pool_p1_m012"
    by (simp add: get_minion_pool_def db_get_minion_pool_def store_m012_def pool_p1_m012_def
        pool_p1_def machine_m0_def machine_m1_def machine_m2_def)
  have p: "(if True then get_minion_pool store_m012 (pool_id pool_p1) True else Inr pool_p1)
           = Inr pool_p1_m012"
    using g by simp
  have sub: "set (minion_machines pool_p1_m012) \<subseteq> set (db_machines store_m012)"
    by (simp add: pool_p1_m012_def store_m012_def)
  have d: "distinct (map machine_id (db_machines store_m012))"
    by (simp add: store_m012_def machine_m0_def machine_m1_def machine_m2_def)
  have inv: "\<forall>m \<in> set (db_machines store_m012).
               machine_status m = MINION_MACHINE_STATUS_AVAILABLE \<longrightarrow>
               allocated_action m = None"
    by (simp add: store_m012_def machine_m0_def machine_m1_def machine_m2_def)
  have in': "machine_m0\<lparr>machine_status := MINION_MACHINE_STATUS_DEALLOCATING\<rparr>
       \<in> set (db_machines (snd (get_minion_pool_refresh_flow 1100 store_m012 pool_p1 True)))"
    by (simp add: refresh_m012_rows)
  have out: "machine_m0\<lparr>machine_status := MINION_MACHINE_STATUS_DEALLOCATING\<rparr>
       \<notin> set (db_machines store_m012)"
    by (simp add: store_m012_def machine_m0_def machine_m1_def machine_m2_def)
  have act: "allocated_action (machine_m0\<lparr>machine_status := MINION_MACHINE_STATUS_DEALLOCATING\<rparr>)
       = None"
    using p sub d inv in' out
      C1_written_rows [where now = 1100 and db = store_m012 and minion_pool = pool_p1
             and requery = True and loaded_pool = pool_p1_m012]
    by blast
  from a b r g sub d in' out act show ?thesis
    by (intro conjI)
qed

text \<open>
  C2. A pool with one available machine reserves three instances; the insertion of the
  second new row fails. The handler raises \<^verbatim>\<open>AttributeError\<close> while it formats its first
  log line, since \<^verbatim>\<open>new_machine_db_entries_added\<close> holds ids: the pre-existing machine stays
  \<^verbatim>\<open>IN_USE\<close>, the row inserted first stays in the store, and the original error is lost.
\<close>

theorem C2_rollback_not_run:
  "make_minion_machine_allocation_subflow_for_action uuid4_n 1100 store_m0_fault pool_p1_m0
      ''a1'' [''vm1'', ''vm2'', ''vm3''] (FlowName ''f'')
   = (Inl AttributeError,
      store_m0_fault\<lparr>db_machines :=
        [machine_m0\<lparr>allocated_action := Some ''a1'', last_used_at := Some 1100,
                    machine_status := MINION_MACHINE_STATUS_IN_USE\<rparr>,
         machine_n1]\<rparr>)"
  by (simp add: eval_defs pool_p1_m0_def store_m0_fault_def fault_add_n2_def)

section \<open>The error handler of the reservation\<close>

text \<open>
  The handler of the reservation runs its rollback and re-raises the error it handles exactly
  when no new row had been inserted; with an inserted row it raises \<^verbatim>\<open>AttributeError\<close>
  and leaves the store as it found it.
\<close>

lemma allocation_error_handler_nothing_added:
  "allocation_error_handler now ex existing [] db =
     (ex, case db_set_minion_machines_allocation_statuses now (dict_keys existing) None
                 MINION_MACHINE_STATUS_AVAILABLE False db of
            Inl e \<Rightarrow> db
          | Inr db' \<Rightarrow> db')"
  by (simp add: allocation_error_handler_def)

lemma allocation_error_handler_rows_added:
  "allocation_error_handler now ex existing (m # added) db = (AttributeError, db)"
  by (simp add: allocation_error_handler_def str_attr_id_def)

section \<open>Properties of the validation of pool selections\<close>

lemma check_origin_pool_os_type:
  assumes "truthy_id (origin_minion_pool_id act) = Some pid"
      and "get_pool minion_pools pid = Inr pool"
      and "pool_os_type pool \<noteq> OS_TYPE_LINUX"
  shows "check_origin_pool minion_pools act = Inl InvalidMinionPoolSelection"
  using assms by (simp add: check_origin_pool_def)

lemma check_destination_pool_os_type:
  assumes "truthy_id (destination_minion_pool_id act) = Some pid"
      and "get_pool minion_pools pid = Inr pool"
      and "pool_os_type pool \<noteq> OS_TYPE_LINUX"
  shows "check_destination_pool minion_pools act = Inl InvalidMinionPoolSelection"
  using assms by (simp add: check_destination_pool_def)

lemma map_of_with_os_type:
  "map_of (with_os_type f d) pid =
     map_option (\<lambda>p. p\<lparr>pool_os_type := f p\<rparr>) (map_of d pid)"
  by (induction d) (simp_all add: with_os_type_def)

lemma check_osmorphing_pools_os_type:
  "check_osmorphing_pools (with_os_type f d) act groups = check_osmorphing_pools d act groups"
proof (induction groups)
  case Nil
  show ?case by simp
next
  case (Cons g groups)
  obtain pid insts where g: "g = (pid, insts)" by (cases g) auto
  show ?case
  proof (cases "map_of d pid")
    case None
    then show ?thesis
      unfolding g by (simp add: get_pool_def map_of_with_os_type)
  next
    case (Some pool)
    then show ?thesis
      unfolding g using Cons.IH
      by (simp add: get_pool_def map_of_with_os_type check_pool_minion_count_def Let_def)
  qed
qed

lemma check_osmorphing_pool_mappings_os_type:
  "check_osmorphing_pool_mappings (with_os_type f d) act = check_osmorphing_pool_mappings d act"
  by (simp add: check_osmorphing_pool_mappings_def check_osmorphing_pools_os_type
        split: option.splits)

text \<open>
  C3 (as the code has it). When the origin pool that the validation looks up has an
  \<^verbatim>\<open>os_type\<close> other than Linux, the validation raises
  \<^verbatim>\<open>InvalidMinionPoolSelection\<close>. When the destination pool has, it raises
  \<^verbatim>\<open>InvalidMinionPoolSelection\<close> if the checks of the origin pool passed, and in any case
  it does not return normally. The checks of the OSMorphing pools do not read
  \<^verbatim>\<open>os_type\<close>: their outcome is the same whatever the pools' \<^verbatim>\<open>os_type\<close> is.
\<close>

theorem C3_os_type_of_transfer_pools:
  "(truthy_id (origin_minion_pool_id act) = Some pid
      \<and> get_pool (minion_pools_dict (db_pools db)) pid = Inr pool
      \<and> pool_os_type pool \<noteq> OS_TYPE_LINUX
    \<longrightarrow> validate_minion_pool_selections_for_action db act = Inl InvalidMinionPoolSelection)
   \<and> (check_origin_pool (minion_pools_dict (db_pools db)) act = Inr ()
      \<and> truthy_id (destination_minion_pool_id act) = Some pid
      \<and> get_pool (minion_pools_dict (db_pools db)) pid = Inr pool
      \<and> pool_os_type pool \<noteq> OS_TYPE_LINUX
    \<longrightarrow> validate_minion_pool_selections_for_action db act = Inl InvalidMinionPoolSelection)
   \<and> (truthy_id (destination_minion_pool_id act) = Some pid
      \<and> get_pool (minion_pools_dict (db_pools db)) pid = Inr pool
      \<and> pool_os_type pool \<noteq> OS_TYPE_LINUX
    \<longrightarrow> validate_minion_pool_selections_for_action db act \<noteq> Inr ())
   \<and> check_osmorphing_pool_mappings (with_os_type f minion_pools) act
       = check_osmorphing_pool_mappings minion_pools act"
proof (intro conjI impI)
  assume "truthy_id (origin_minion_pool_id act) = Some pid
      \<and> get_pool (minion_pools_dict (db_pools db)) pid = Inr pool
      \<and> pool_os_type pool \<noteq> OS_TYPE_LINUX"
  then have "check_origin_pool (minion_pools_dict (db_pools db)) act
               = Inl InvalidMinionPoolSelection"
    using check_origin_pool_os_type by blast
  then show "validate_minion_pool_selections_for_action db act = Inl InvalidMinionPoolSelection"
    by (simp add: validate_minion_pool_selections_for_action_def)
next
  assume a: "check_origin_pool (minion_pools_dict (db_pools db)) act = Inr ()
      \<and> truthy_id (destination_minion_pool_id act) = Some pid
      \<and> get_pool (minion_pools_dict (db_pools db)) pid = Inr pool
      \<and> pool_os_type pool \<noteq> OS_TYPE_LINUX"
  then have "check_destination_pool (minion_pools_dict (db_pools db)) act
               = Inl InvalidMinionPoolSelection"
    using check_destination_pool_os_type by blast
  with a show "validate_minion_pool_selections_for_action db act
                 = Inl InvalidMinionPoolSelection"
    by (simp add: validate_minion_pool_selections_for_action_def)
next
  assume "truthy_id (destination_minion_pool_id act) = Some pid
      \<and> get_pool (minion_pools_dict (db_pools db)) pid = Inr pool
      \<and> pool_os_type pool \<noteq> OS_TYPE_LINUX"
  then have "check_destination_pool (minion_pools_dict (db_pools db)) act
               = Inl InvalidMinionPoolSelection"
    using check_destination_pool_os_type by blast
  then show "validate_minion_pool_selections_for_action db act \<noteq> Inr ()"
    by (cases "check_origin_pool (minion_pools_dict (db_pools db)) act")
       (simp_all add: validate_minion_pool_selections_for_action_def)
next
  show "check_osmorphing_pool_mappings (with_os_type f minion_pools) act
       = check_osmorphing_pool_mappings minion_pools act"
    by (rule check_osmorphing_pool_mappings_os_type)
qed

lemmas validate_defs =
  validate_minion_pool_selections_for_action_def check_origin_pool_def
  check_destination_pool_def check_osmorphing_pool_mappings_def check_pool_minion_count_def
  get_pool_def minion_pools_dict_def truthy_id_def Let_def
  OS_TYPE_LINUX_def PROVIDER_PLATFORM_SOURCE_def PROVIDER_PLATFORM_DESTINATION_def
  store_pools_def pool_source_def pool_p1_def pool_windows_def
  action_osmorphing_windows_def action_destination_windows_def

text \<open>
  C3 as stated fails: an action whose instance is mapped to an OSMorphing pool of
  \<^verbatim>\<open>os_type\<close> \<^verbatim>\<open>windows\<close> validates without an error.
\<close>

theorem C3_counterexample:
  "get_pool (minion_pools_dict (db_pools store_pools)) ''p2'' = Inr pool_windows
   \<and> pool_os_type pool_windows \<noteq> OS_TYPE_LINUX
   \<and> instance_osmorphing_minion_pool_mappings action_osmorphing_windows
       = Some [(''vm1'', ''p2'')]
   \<and> ''vm1'' \<in> set (instances action_osmorphing_windows)
   \<and> validate_minion_pool_selections_for_action store_pools action_osmorphing_windows
       = Inr ()"
  by (simp add: validate_defs)

theorem C3_os_type_of_transfer_pools_witness:
  "check_origin_pool (minion_pools_dict (db_pools store_pools)) action_destination_windows
     = Inr ()
   \<and> truthy_id (destination_minion_pool_id action_destination_windows) = Some ''p2''
   \<and> get_pool (minion_pools_dict (db_pools store_pools)) ''p2'' = Inr pool_windows
   \<and> pool_os_type pool_windows \<noteq> OS_TYPE_LINUX
   \<and> validate_minion_pool_selections_for_action store_pools action_destination_windows
       = Inl InvalidMinionPoolSelection"
proof -
  have h: "check_origin_pool (minion_pools_dict (db_pools store_pools))
             action_destination_windows = Inr ()
   \<and> truthy_id (destination_minion_pool_id action_destination_windows) = Some ''p2''
   \<and> get_pool (minion_pools_dict (db_pools store_pools)) ''p2'' = Inr pool_windows
   \<and> pool_os_type pool_windows \<noteq> OS_TYPE_LINUX"
    by (simp add: validate_defs)
  from h C3_os_type_of_transfer_pools [of action_destination_windows "''p2''" store_pools
                                         pool_windows]
  show ?thesis by blast
qed

section \<open>Properties of the deallocation of a pool\<close>

lemma find_pool_id:
  "find (\<lambda>p. pool_id p = pid) ps = Some p \<Longrightarrow> pool_id p = pid"
  by (induction ps) (simp_all split: if_splits)

lemma get_minion_pool_id:
  assumes "get_minion_pool db pid True = Inr pool"
  shows "pool_id pool = pid"
proof (cases "find (\<lambda>p. pool_id p = pid) (db_pools db)")
  case None
  with assms show ?thesis
    by (simp add: get_minion_pool_def db_get_minion_pool_def)
next
  case (Some p)
  have "pool_id p = pid" using Some by (rule find_pool_id)
  with assms Some show ?thesis
    by (auto simp: get_minion_pool_def db_get_minion_pool_def)
qed

lemma deallocate_deallocated:
  assumes "get_minion_pool db pid True = Inr pool"
      and "pool_status pool = MINION_POOL_STATUS_DEALLOCATED"
  shows "deallocate_minion_pool svc db pid force = (Inr pool, db, [])"
  using assms get_minion_pool_id [OF assms(1)]
  by (simp add: deallocate_minion_pool_def Let_def)

lemma deallocate_wrong_status:
  assumes "get_minion_pool db pid True = Inr pool"
      and "pool_status pool \<noteq> MINION_POOL_STATUS_DEALLOCATED"
      and "pool_status pool \<noteq> MINION_POOL_STATUS_ALLOCATED"
      and "pool_status pool \<noteq> MINION_POOL_STATUS_ERROR"
      and "\<not> force"
  shows "deallocate_minion_pool svc db pid force = (Inl InvalidMinionPoolState, db, [])"
  using assms by (simp add: deallocate_minion_pool_def Let_def)

lemma deallocate_machines_in_use:
  assumes "get_minion_pool db pid True = Inr pool"
      and "pool_status pool \<noteq> MINION_POOL_STATUS_DEALLOCATED"
      and "\<not> force"
      and "filter (\<lambda>mch. machine_status mch \<notin> set [MINION_MACHINE_STATUS_AVAILABLE,
                                                     MINION_MACHINE_STATUS_ERROR_DEPLOYING,
                                                     MINION_MACHINE_STATUS_ERROR])
             (minion_machines pool) \<noteq> []"
  shows "deallocate_minion_pool svc db pid force = (Inl InvalidMinionPoolState, db, [])"
  using assms
  by (simp add: deallocate_minion_pool_def check_pool_machines_in_use_def Let_def)

lemma deallocate_launches:
  assumes "get_minion_pool db pid True = Inr pool"
      and "pool_status pool \<noteq> MINION_POOL_STATUS_DEALLOCATED"
      and "force \<or> ((pool_status pool = MINION_POOL_STATUS_ALLOCATED
                       \<or> pool_status pool = MINION_POOL_STATUS_ERROR)
                     \<and> filter (\<lambda>mch. machine_status mch \<notin>
                                   set [MINION_MACHINE_STATUS_AVAILABLE,
                                        MINION_MACHINE_STATUS_ERROR_DEPLOYING,
                                        MINION_MACHINE_STATUS_ERROR])
                          (minion_machines pool) = [])"
      and "conductor_get_endpoint svc (pool_endpoint_id pool) = None"
      and "runner_run_flow_in_background svc (get_minion_pool_deallocation_flow pool) = None"
      and "db_faults db (DB_set_minion_pool_status pid MINION_POOL_STATUS_POOL_MAINTENANCE)
             = None"
  shows "deallocate_minion_pool svc db pid force =
          (get_minion_pool
             (db\<lparr>db_pools :=
                   map (\<lambda>p. if pool_id p = pid
                             then p\<lparr>pool_status := MINION_POOL_STATUS_POOL_MAINTENANCE\<rparr>
                             else p)
                     (db_pools db)\<rparr>) pid True,
           db\<lparr>db_pools :=
                map (\<lambda>p. if pool_id p = pid
                          then p\<lparr>pool_status := MINION_POOL_STATUS_POOL_MAINTENANCE\<rparr>
                          else p)
                  (db_pools db)\<rparr>,
           [get_minion_pool_deallocation_flow pool])"
proof (cases force)
  case True
  with assms get_minion_pool_id [OF assms(1)] show ?thesis
    by (simp add: deallocate_minion_pool_def check_pool_machines_in_use_def Let_def
          db_set_minion_pool_status_def)
next
  case False
  with assms get_minion_pool_id [OF assms(1)] show ?thesis
    by (auto simp: deallocate_minion_pool_def check_pool_machines_in_use_def Let_def
          db_set_minion_pool_status_def)
qed

text \<open>
  C4 (as the code has it). For a pool in status \<^verbatim>\<open>DEALLOCATED\<close> the call returns the
  pool at once, with or without \<^verbatim>\<open>force\<close>, and launches nothing. Without
  \<^verbatim>\<open>force\<close> it raises \<^verbatim>\<open>InvalidMinionPoolState\<close> for a pool in a status other than
  \<^verbatim>\<open>DEALLOCATED\<close>, \<^verbatim>\<open>ALLOCATED\<close> and \<^verbatim>\<open>ERROR\<close>, and for a pool with a machine
  in a status other than \<^verbatim>\<open>AVAILABLE\<close>, \<^verbatim>\<open>ERROR_DEPLOYING\<close> and \<^verbatim>\<open>ERROR\<close>.
  Otherwise, when the conductor, the runner and the status update do not fail, it sets the
  pool to \<^verbatim>\<open>POOL_MAINTENANCE\<close> and hands the deallocation flow to the runner.
\<close>

theorem C4_deallocate_minion_pool:
  "(get_minion_pool db pid True = Inr pool
      \<and> pool_status pool = MINION_POOL_STATUS_DEALLOCATED
    \<longrightarrow> deallocate_minion_pool svc db pid force = (Inr pool, db, []))
   \<and> (get_minion_pool db pid True = Inr pool
      \<and> pool_status pool \<noteq> MINION_POOL_STATUS_DEALLOCATED
      \<and> pool_status pool \<noteq> MINION_POOL_STATUS_ALLOCATED
      \<and> pool_status pool \<noteq> MINION_POOL_STATUS_ERROR
      \<and> \<not> force
    \<longrightarrow> deallocate_minion_pool svc db pid force = (Inl InvalidMinionPoolState, db, []))
   \<and> (get_minion_pool db pid True = Inr pool
      \<and> pool_status pool \<noteq> MINION_POOL_STATUS_DEALLOCATED
      \<and> \<not> force
      \<and> filter (\<lambda>mch. machine_status mch \<notin> set [MINION_MACHINE_STATUS_AVAILABLE,
                                                     MINION_MACHINE_STATUS_ERROR_DEPLOYING,
                                                     MINION_MACHINE_STATUS_ERROR])
             (minion_machines pool) \<noteq> []
    \<longrightarrow> deallocate_minion_pool svc db pid force = (Inl InvalidMinionPoolState, db, []))
   \<and> (get_minion_pool db pid True = Inr pool
      \<and> pool_status pool \<noteq> MINION_POOL_STATUS_DEALLOCATED
      \<and> (force \<or> ((pool_status pool = MINION_POOL_STATUS_ALLOCATED
                       \<or> pool_status pool = MINION_POOL_STATUS_ERROR)
                     \<and> filter (\<lambda>mch. machine_status mch \<notin> set [MINION_MACHINE_STATUS_AVAILABLE,
                                                     MINION_MACHINE_STATUS_ERROR_DEPLOYING,
                                                     MINION_MACHINE_STATUS_ERROR])
             (minion_machines pool) = []))
      \<and> conductor_get_endpoint svc (pool_endpoint_id pool) = None
      \<and> runner_run_flow_in_background svc (get_minion_pool_deallocation_flow pool) = None
      \<and> db_faults db (DB_set_minion_pool_status pid MINION_POOL_STATUS_POOL_MAINTENANCE)
           = None
    \<longrightarrow> deallocate_minion_pool svc db pid force =
          (get_minion_pool
             (db\<lparr>db_pools :=
                map (\<lambda>p. if pool_id p = pid
                          then p\<lparr>pool_status := MINION_POOL_STATUS_POOL_MAINTENANCE\<rparr>
                          else p)
                  (db_pools db)\<rparr>) pid True,
           db\<lparr>db_pools :=
                map (\<lambda>p. if pool_id p = pid
                          then p\<lparr>pool_status := MINION_POOL_STATUS_POOL_MAINTENANCE\<rparr>
                          else p)
                  (db_pools db)\<rparr>,
           [get_minion_pool_deallocation_flow pool]))"
proof (intro conjI impI)
  assume "get_minion_pool db pid True = Inr pool
      \<and> pool_status pool = MINION_POOL_STATUS_DEALLOCATED"
  then show "deallocate_minion_pool svc db pid force = (Inr pool, db, [])"
    using deallocate_deallocated by blast
next
  assume "get_minion_pool db pid True = Inr pool
      \<and> pool_status pool \<noteq> MINION_POOL_STATUS_DEALLOCATED
      \<and> pool_status pool \<noteq> MINION_POOL_STATUS_ALLOCATED
      \<and> pool_status pool \<noteq> MINION_POOL_STATUS_ERROR
      \<and> \<not> force"
  then show "deallocate_minion_pool svc db pid force = (Inl InvalidMinionPoolState, db, [])"
    using deallocate_wrong_status by blast
next
  assume "get_minion_pool db pid True = Inr pool
      \<and> pool_status pool \<noteq> MINION_POOL_STATUS_DEALLOCATED
      \<and> \<not> force
      \<and> filter (\<lambda>mch. machine_status mch \<notin> set [MINION_MACHINE_STATUS_AVAILABLE,
                                                     MINION_MACHINE_STATUS_ERROR_DEPLOYING,
                                                     MINION_MACHINE_STATUS_ERROR])
             (minion_machines pool) \<noteq> []"
  then show "deallocate_minion_pool svc db pid force = (Inl InvalidMinionPoolState, db, [])"
    using deallocate_machines_in_use [of db pid pool force svc] by blast
next
  assume a: "get_minion_pool db pid True = Inr pool
      \<and> pool_status pool \<noteq> MINION_POOL_STATUS_DEALLOCATED
      \<and> (force \<or> ((pool_status pool = MINION_POOL_STATUS_ALLOCATED
                       \<or> pool_status pool = MINION_POOL_STATUS_ERROR)
                     \<and> filter (\<lambda>mch. machine_status mch \<notin> set [MINION_MACHINE_STATUS_AVAILABLE,
                                                     MINION_MACHINE_STATUS_ERROR_DEPLOYING,
                                                     MINION_MACHINE_STATUS_ERROR])
             (minion_machines pool) = []))
      \<and> conductor_get_endpoint svc (pool_endpoint_id pool) = None
      \<and> runner_run_flow_in_background svc (get_minion_pool_deallocation_flow pool) = None
      \<and> db_faults db (DB_set_minion_pool_status pid MINION_POOL_STATUS_POOL_MAINTENANCE)
           = None"
  show "deallocate_minion_pool svc db pid force =
          (get_minion_pool
             (db\<lparr>db_pools :=
                map (\<lambda>p. if pool_id p = pid
                          then p\<lparr>pool_status := MINION_POOL_STATUS_POOL_MAINTENANCE\<rparr>
                          else p)
                  (db_pools db)\<rparr>) pid True,
           db\<lparr>db_pools :=
                map (\<lambda>p. if pool_id p = pid
                          then p\<lparr>pool_status := MINION_POOL_STATUS_POOL_MAINTENANCE\<rparr>
                          else p)
                  (db_pools db)\<rparr>,
           [get_minion_pool_deallocation_flow pool])"
    by (rule deallocate_launches) (use a in blast)+
qed

lemma get_pool_deallocated:
  "get_minion_pool store_p45 ''p4'' True = Inr pool_deallocated"
  by (simp add: get_minion_pool_def db_get_minion_pool_def store_p45_def
        pool_deallocated_def pool_maintenance_def)

lemma get_pool_maintenance:
  "get_minion_pool store_p45 ''p5'' True = Inr pool_maintenance"
  by (simp add: get_minion_pool_def db_get_minion_pool_def store_p45_def
        pool_deallocated_def pool_maintenance_def)

text \<open>
  C4 as stated fails: a pool in status \<^verbatim>\<open>DEALLOCATED\<close>, which is neither
  \<^verbatim>\<open>ALLOCATED\<close> nor \<^verbatim>\<open>ERROR\<close>, is returned without an error when \<^verbatim>\<open>force\<close> is
  not set.
\<close>

theorem C4_counterexample:
  "get_minion_pool store_p45 ''p4'' True = Inr pool_deallocated
   \<and> pool_status pool_deallocated \<noteq> MINION_POOL_STATUS_ALLOCATED
   \<and> pool_status pool_deallocated \<noteq> MINION_POOL_STATUS_ERROR
   \<and> deallocate_minion_pool services_ok store_p45 ''p4'' False
       = (Inr pool_deallocated, store_p45, [])"
proof -
  have "pool_id pool_deallocated = ''p4''"
    by (simp add: pool_deallocated_def)
  moreover have "pool_status pool_deallocated = MINION_POOL_STATUS_DEALLOCATED"
    by (simp add: pool_deallocated_def)
  ultimately show ?thesis
    using get_pool_deallocated
    by (simp add: deallocate_minion_pool_def Let_def)
qed

theorem C4_deallocate_minion_pool_witness:
  "get_minion_pool store_p45 ''p5'' True = Inr pool_maintenance
   \<and> pool_status pool_maintenance \<noteq> MINION_POOL_STATUS_DEALLOCATED
   \<and> pool_status pool_maintenance \<noteq> MINION_POOL_STATUS_ALLOCATED
   \<and> pool_status pool_maintenance \<noteq> MINION_POOL_STATUS_ERROR
   \<and> deallocate_minion_pool services_ok store_p45 ''p5'' False
       = (Inl InvalidMinionPoolState, store_p45, [])
   \<and> deallocate_minion_pool services_ok store_p45 ''p5'' True
       = (Inr (pool_maintenance\<lparr>pool_status := MINION_POOL_STATUS_POOL_MAINTENANCE\<rparr>),
          store_p45\<lparr>db_pools :=
             [pool_deallocated,
              pool_maintenance\<lparr>pool_status := MINION_POOL_STATUS_POOL_MAINTENANCE\<rparr>]\<rparr>,
          [get_minion_pool_deallocation_flow pool_maintenance])"
proof -
  have s: "pool_status pool_maintenance \<noteq> MINION_POOL_STATUS_DEALLOCATED"
          "pool_status pool_maintenance \<noteq> MINION_POOL_STATUS_ALLOCATED"
          "pool_status pool_maintenance \<noteq> MINION_POOL_STATUS_ERROR"
    by (simp_all add: pool_maintenance_def)
  have e: "conductor_get_endpoint services_ok (pool_endpoint_id pool_maintenance) = None"
          "runner_run_flow_in_background services_ok
             (get_minion_pool_deallocation_flow pool_maintenance) = None"
          "db_faults store_p45
             (DB_set_minion_pool_status ''p5'' MINION_POOL_STATUS_POOL_MAINTENANCE) = None"
    by (simp_all add: services_ok_def store_p45_def no_faults_def)
  have a: "deallocate_minion_pool services_ok store_p45 ''p5'' False
             = (Inl InvalidMinionPoolState, store_p45, [])"
    using C4_deallocate_minion_pool [of store_p45 "''p5''" pool_maintenance services_ok False]
      get_pool_maintenance s by blast
  have b: "deallocate_minion_pool services_ok store_p45 ''p5'' True =
          (get_minion_pool
             (store_p45\<lparr>db_pools :=
                map (\<lambda>p. if pool_id p = ''p5''
                          then p\<lparr>pool_status := MINION_POOL_STATUS_POOL_MAINTENANCE\<rparr>
                          else p)
                  (db_pools store_p45)\<rparr>) ''p5'' True,
           store_p45\<lparr>db_pools :=
                map (\<lambda>p. if pool_id p = ''p5''
                          then p\<lparr>pool_status := MINION_POOL_STATUS_POOL_MAINTENANCE\<rparr>
                          else p)
                  (db_pools store_p45)\<rparr>,
           [get_minion_pool_deallocation_flow pool_maintenance])"
    using C4_deallocate_minion_pool [of store_p45 "''p5''" pool_maintenance services_ok True]
      get_pool_maintenance s e by blast
  have c: "store_p45\<lparr>db_pools :=
                map (\<lambda>p. if pool_id p = ''p5''
                          then p\<lparr>pool_status := MINION_POOL_STATUS_POOL_MAINTENANCE\<rparr>
                          else p)
                  (db_pools store_p45)\<rparr>
           = store_p45\<lparr>db_pools :=
             [pool_deallocated,
              pool_maintenance\<lparr>pool_status := MINION_POOL_STATUS_POOL_MAINTENANCE\<rparr>]\<rparr>"
    by (simp add: store_p45_def pool_deallocated_def pool_maintenance_def)
  have d: "get_minion_pool (store_p45\<lparr>db_pools :=
             [pool_deallocated,
              pool_maintenance\<lparr>pool_status := MINION_POOL_STATUS_POOL_MAINTENANCE\<rparr>]\<rparr>)
             ''p5'' True
           = Inr (pool_maintenance\<lparr>pool_status := MINION_POOL_STATUS_POOL_MAINTENANCE\<rparr>)"
    by (simp add: get_minion_pool_def db_get_minion_pool_def store_p45_def
          pool_deallocated_def pool_maintenance_def)
  from b have b': "deallocate_minion_pool services_ok store_p45 ''p5'' True
       = (Inr (pool_maintenance\<lparr>pool_status := MINION_POOL_STATUS_POOL_MAINTENANCE\<rparr>),
          store_p45\<lparr>db_pools :=
             [pool_deallocated,
              pool_maintenance\<lparr>pool_status := MINION_POOL_STATUS_POOL_MAINTENANCE\<rparr>]\<rparr>,
          [get_minion_pool_deallocation_flow pool_maintenance])"
    by (simp only: c d)
  from get_pool_maintenance s a b' show ?thesis
    by (intro conjI)
qed

end
